theory Spec2Isabelle
  imports Complex_Main "HOL-Library.Word" "HOL-Library.Log_Nat"
begin

unbundle bit_operations_syntax

section \<open>Mip level counting (shader\_gl\_core.cpp)\<close>

text \<open>
  C's \<open>unsigned\<close> is a 32-bit word.  \<open>num_miplevels\<close> takes the larger of the two
  dimensions and counts how often it can be shifted right by one before it is zero.
  The loop is the recursion \<open>num_miplevels_loop sz levels\<close>; it ends because a
  non-zero word gets smaller when shifted right.
\<close>

type_synonym u32 = "32 word"

function num_miplevels_loop :: "u32 \<Rightarrow> u32 \<Rightarrow> u32" where
  "num_miplevels_loop sz levels =
     (if sz \<noteq> 0 then num_miplevels_loop (drop_bit 1 sz) (levels + 1) else levels)"
  by pat_completeness auto
termination
proof (relation "measure (\<lambda>(sz, levels). unat sz)")
  show "wf (measure (\<lambda>(sz :: u32, levels :: u32). unat sz))"
    by simp
next
  fix sz levels :: u32
  assume nz: "sz \<noteq> 0"
  have "unat sz \<noteq> 0"
    using nz by (simp add: unat_eq_0)
  then have "unat sz div 2 < unat sz"
    by simp
  moreover have "unat (drop_bit 1 sz) = unat sz div 2"
    by (simp add: drop_bit_eq_div unat_div)
  ultimately show "((drop_bit 1 sz, levels + 1), (sz, levels))
      \<in> measure (\<lambda>(sz, levels). unat sz)"
    by simp
qed

declare num_miplevels_loop.simps [simp del]

definition num_miplevels :: "u32 \<Rightarrow> u32 \<Rightarrow> u32" where
  "num_miplevels width height = num_miplevels_loop (max width height) 0"

text \<open>
  The level count of \<open>gl_core_filter_chain_load_lut\<close>: the image is allocated with
  \<open>num_miplevels\<close> levels when the preset asks for mipmaps and with one level otherwise.
\<close>

definition lut_levels :: "bool \<Rightarrow> u32 \<Rightarrow> u32 \<Rightarrow> u32" where
  "lut_levels mipmap width height = (if mipmap then num_miplevels width height else 1)"

section \<open>Data of the preset loader (shader\_gl\_core.cpp)\<close>

text \<open>
  The enums of the filter chain interface and of the parsed preset.  The scale factors,
  C \<open>float\<close>s that the loader only copies and sets from literals and from unsigned
  pixel counts, are rationals.
\<close>

type_synonym cfloat = rat

text \<open>
  \<open>float(n)\<close> for an unsigned \<open>n\<close>: the nearest value with a 24-bit significand, ties
  to the even one.  Up to \<open>2\<^sup>2\<^sup>4\<close> the conversion is exact.
\<close>

definition float_of_u32 :: "u32 \<Rightarrow> cfloat" where
  "float_of_u32 w =
     (let n = unat w;
          e = floorlog 2 n - 24;
          q = n div 2 ^ e;
          r = n mod 2 ^ e;
          q' = (if 2 ^ e < 2 * r \<or> (2 * r = 2 ^ e \<and> odd q) then q + 1 else q)
      in of_nat (q' * 2 ^ e))"

text \<open>
  The four numbers of a tunable parameter are \<open>float\<close>s that the loader compares with
  \<open>!=\<close>.  Such a value is a number, an infinity (\<open>True\<close> for the negative one) or a
  NaN; the two zeros are the one number 0, as the comparison does not tell them apart.
  \<open>float_ne\<close> is the comparison \<open>!=\<close>: it holds whenever an operand is a NaN.
\<close>

datatype c_float = Float_Number rat | Float_Infinity bool | Float_NaN

definition float_ne :: "c_float \<Rightarrow> c_float \<Rightarrow> bool" where
  "float_ne a b \<longleftrightarrow> a = Float_NaN \<or> b = Float_NaN \<or> a \<noteq> b"

datatype gl_core_filter_chain_filter =
  GL_CORE_FILTER_CHAIN_LINEAR | GL_CORE_FILTER_CHAIN_NEAREST

datatype gl_core_filter_chain_address =
  GL_CORE_FILTER_CHAIN_ADDRESS_REPEAT
| GL_CORE_FILTER_CHAIN_ADDRESS_MIRRORED_REPEAT
| GL_CORE_FILTER_CHAIN_ADDRESS_CLAMP_TO_EDGE
| GL_CORE_FILTER_CHAIN_ADDRESS_CLAMP_TO_BORDER

datatype gl_core_filter_chain_scale =
  GL_CORE_FILTER_CHAIN_SCALE_ORIGINAL
| GL_CORE_FILTER_CHAIN_SCALE_SOURCE
| GL_CORE_FILTER_CHAIN_SCALE_VIEWPORT
| GL_CORE_FILTER_CHAIN_SCALE_ABSOLUTE

datatype gfx_wrap_type =
  RARCH_WRAP_BORDER | RARCH_WRAP_EDGE | RARCH_WRAP_REPEAT | RARCH_WRAP_MIRRORED_REPEAT

datatype gfx_filter_type =
  RARCH_FILTER_UNSPEC | RARCH_FILTER_LINEAR | RARCH_FILTER_NEAREST

datatype gfx_scale_type =
  RARCH_SCALE_INPUT | RARCH_SCALE_ABSOLUTE | RARCH_SCALE_VIEWPORT

datatype gl_wrap = GL_CLAMP_TO_EDGE | GL_CLAMP_TO_BORDER | GL_REPEAT | GL_MIRRORED_REPEAT

datatype gl_shader_stage = GL_VERTEX_SHADER | GL_FRAGMENT_SHADER

datatype glslang_format =
  SLANG_FORMAT_UNKNOWN
| SLANG_FORMAT_R8_UNORM | SLANG_FORMAT_R8_SINT | SLANG_FORMAT_R8_UINT
| SLANG_FORMAT_R8G8_UNORM | SLANG_FORMAT_R8G8_SINT | SLANG_FORMAT_R8G8_UINT
| SLANG_FORMAT_R8G8B8A8_UNORM | SLANG_FORMAT_R8G8B8A8_SINT | SLANG_FORMAT_R8G8B8A8_UINT
| SLANG_FORMAT_R8G8B8A8_SRGB
| SLANG_FORMAT_A2B10G10R10_UNORM_PACK32 | SLANG_FORMAT_A2B10G10R10_UINT_PACK32
| SLANG_FORMAT_R16_UINT | SLANG_FORMAT_R16_SINT | SLANG_FORMAT_R16_SFLOAT
| SLANG_FORMAT_R16G16_UINT | SLANG_FORMAT_R16G16_SINT | SLANG_FORMAT_R16G16_SFLOAT
| SLANG_FORMAT_R16G16B16A16_UINT | SLANG_FORMAT_R16G16B16A16_SINT
| SLANG_FORMAT_R16G16B16A16_SFLOAT
| SLANG_FORMAT_R32_UINT | SLANG_FORMAT_R32_SINT | SLANG_FORMAT_R32_SFLOAT
| SLANG_FORMAT_R32G32_UINT | SLANG_FORMAT_R32G32_SINT | SLANG_FORMAT_R32G32_SFLOAT
| SLANG_FORMAT_R32G32B32A32_UINT | SLANG_FORMAT_R32G32B32A32_SINT
| SLANG_FORMAT_R32G32B32A32_SFLOAT

text \<open>The internal formats of textures and render targets; \<open>GL_FORMAT_0\<close> is the
  \<open>GLenum\<close> value 0.\<close>

datatype gl_format =
  GL_FORMAT_0
| GL_R8 | GL_R8I | GL_R8UI | GL_RG8 | GL_RG8I | GL_RG8UI
| GL_RGBA8 | GL_RGBA8I | GL_RGBA8UI | GL_SRGB8
| GL_RGB10_A2 | GL_RGB10_A2UI
| GL_R16UI | GL_R16I | GL_R16F | GL_RG16UI | GL_RG16I | GL_RG16F
| GL_RGBA16UI | GL_RGBA16I | GL_RGBA16F
| GL_R32UI | GL_R32I | GL_R32F | GL_RG32UI | GL_RG32I | GL_RG32F
| GL_RGBA32UI | GL_RGBA32I | GL_RGBA32F
| GL_RGB565

fun wrap_to_address :: "gfx_wrap_type \<Rightarrow> gl_core_filter_chain_address" where
  "wrap_to_address RARCH_WRAP_EDGE = GL_CORE_FILTER_CHAIN_ADDRESS_CLAMP_TO_EDGE"
| "wrap_to_address RARCH_WRAP_BORDER = GL_CORE_FILTER_CHAIN_ADDRESS_CLAMP_TO_BORDER"
| "wrap_to_address RARCH_WRAP_REPEAT = GL_CORE_FILTER_CHAIN_ADDRESS_REPEAT"
| "wrap_to_address RARCH_WRAP_MIRRORED_REPEAT = GL_CORE_FILTER_CHAIN_ADDRESS_MIRRORED_REPEAT"

fun address_to_gl :: "gl_core_filter_chain_address \<Rightarrow> gl_wrap" where
  "address_to_gl GL_CORE_FILTER_CHAIN_ADDRESS_CLAMP_TO_EDGE = GL_CLAMP_TO_EDGE"
| "address_to_gl GL_CORE_FILTER_CHAIN_ADDRESS_CLAMP_TO_BORDER = GL_CLAMP_TO_BORDER"
| "address_to_gl GL_CORE_FILTER_CHAIN_ADDRESS_REPEAT = GL_REPEAT"
| "address_to_gl GL_CORE_FILTER_CHAIN_ADDRESS_MIRRORED_REPEAT = GL_MIRRORED_REPEAT"

fun convert_glslang_format :: "glslang_format \<Rightarrow> gl_format" where
  "convert_glslang_format SLANG_FORMAT_R8_UNORM = GL_R8"
| "convert_glslang_format SLANG_FORMAT_R8_SINT = GL_R8I"
| "convert_glslang_format SLANG_FORMAT_R8_UINT = GL_R8UI"
| "convert_glslang_format SLANG_FORMAT_R8G8_UNORM = GL_RG8"
| "convert_glslang_format SLANG_FORMAT_R8G8_SINT = GL_RG8I"
| "convert_glslang_format SLANG_FORMAT_R8G8_UINT = GL_RG8UI"
| "convert_glslang_format SLANG_FORMAT_R8G8B8A8_UNORM = GL_RGBA8"
| "convert_glslang_format SLANG_FORMAT_R8G8B8A8_SINT = GL_RGBA8I"
| "convert_glslang_format SLANG_FORMAT_R8G8B8A8_UINT = GL_RGBA8UI"
| "convert_glslang_format SLANG_FORMAT_R8G8B8A8_SRGB = GL_SRGB8"
| "convert_glslang_format SLANG_FORMAT_A2B10G10R10_UNORM_PACK32 = GL_RGB10_A2"
| "convert_glslang_format SLANG_FORMAT_A2B10G10R10_UINT_PACK32 = GL_RGB10_A2UI"
| "convert_glslang_format SLANG_FORMAT_R16_UINT = GL_R16UI"
| "convert_glslang_format SLANG_FORMAT_R16_SINT = GL_R16I"
| "convert_glslang_format SLANG_FORMAT_R16_SFLOAT = GL_R16F"
| "convert_glslang_format SLANG_FORMAT_R16G16_UINT = GL_RG16UI"
| "convert_glslang_format SLANG_FORMAT_R16G16_SINT = GL_RG16I"
| "convert_glslang_format SLANG_FORMAT_R16G16_SFLOAT = GL_RG16F"
| "convert_glslang_format SLANG_FORMAT_R16G16B16A16_UINT = GL_RGBA16UI"
| "convert_glslang_format SLANG_FORMAT_R16G16B16A16_SINT = GL_RGBA16I"
| "convert_glslang_format SLANG_FORMAT_R16G16B16A16_SFLOAT = GL_RGBA16F"
| "convert_glslang_format SLANG_FORMAT_R32_UINT = GL_R32UI"
| "convert_glslang_format SLANG_FORMAT_R32_SINT = GL_R32I"
| "convert_glslang_format SLANG_FORMAT_R32_SFLOAT = GL_R32F"
| "convert_glslang_format SLANG_FORMAT_R32G32_UINT = GL_RG32UI"
| "convert_glslang_format SLANG_FORMAT_R32G32_SINT = GL_RG32I"
| "convert_glslang_format SLANG_FORMAT_R32G32_SFLOAT = GL_RG32F"
| "convert_glslang_format SLANG_FORMAT_R32G32B32A32_UINT = GL_RGBA32UI"
| "convert_glslang_format SLANG_FORMAT_R32G32B32A32_SINT = GL_RGBA32I"
| "convert_glslang_format SLANG_FORMAT_R32G32B32A32_SFLOAT = GL_RGBA32F"
| "convert_glslang_format SLANG_FORMAT_UNKNOWN = GL_FORMAT_0"

text \<open>
  A \<open>#pragma parameter\<close> declaration as the shader compiler reports it
  (\<open>glslang_parameter\<close>, with \<open>std::string\<close> fields) and a parameter as the preset
  stores it (\<open>video_shader_parameter\<close>, with fixed-size character arrays).
\<close>

record glslang_parameter =
  mp_id :: string
  mp_desc :: string
  mp_initial :: c_float
  mp_minimum :: c_float
  mp_maximum :: c_float
  mp_step :: c_float

record video_shader_parameter =
  sp_id :: string
  sp_desc :: string
  sp_current :: c_float
  sp_initial :: c_float
  sp_minimum :: c_float
  sp_maximum :: c_float
  sp_step :: c_float

record glslang_output =
  vertex :: "u32 list"
  fragment :: "u32 list"
  meta_parameters :: "glslang_parameter list"
  meta_name :: string
  meta_rt_format :: glslang_format

record gfx_fbo_scale =
  fbo_valid :: bool
  fbo_type_x :: gfx_scale_type
  fbo_type_y :: gfx_scale_type
  fbo_scale_x :: cfloat
  fbo_scale_y :: cfloat
  fbo_abs_x :: u32
  fbo_abs_y :: u32
  fbo_srgb_fbo :: bool
  fbo_fp_fbo :: bool

record video_shader_pass =
  source_path :: string
  pass_alias :: string
  pass_filter :: gfx_filter_type
  pass_wrap :: gfx_wrap_type
  frame_count_mod :: u32
  pass_mipmap :: bool
  fbo :: gfx_fbo_scale

record video_shader_lut =
  lut_id :: string
  lut_path :: string
  lut_filter :: gfx_filter_type
  lut_wrap :: gfx_wrap_type
  lut_mipmap :: bool

text \<open>
  \<open>video_shader\<close>: the arrays \<open>pass\<close>, \<open>lut\<close> and \<open>parameters\<close> with their counts
  \<open>passes\<close>, \<open>luts\<close> and \<open>num_parameters\<close> are lists; the count is the length.
\<close>

record video_shader =
  pass :: "video_shader_pass list"
  lut :: "video_shader_lut list"
  parameters :: "video_shader_parameter list"

record gl_core_filter_chain_pass_info =
  scale_type_x :: gl_core_filter_chain_scale
  scale_type_y :: gl_core_filter_chain_scale
  scale_x :: cfloat
  scale_y :: cfloat
  rt_format :: gl_format
  source_filter :: gl_core_filter_chain_filter
  mip_filter :: gl_core_filter_chain_filter
  address :: gl_core_filter_chain_address
  max_levels :: u32

text \<open>
  A \<open>StaticTexture\<close> as \<open>gl_core_filter_chain_load_lut\<close> constructs it.  The GL object
  name is not modelled; \<open>st_levels\<close> keeps the level count given to \<open>glTexStorage2D\<close>.
\<close>

record static_texture =
  st_id :: string
  st_width :: u32
  st_height :: u32
  st_linear :: bool
  st_mipmap :: bool
  st_address :: gl_wrap
  st_levels :: u32

text \<open>
  The chain under construction.  shader\_gl\_core.cpp declares the member functions of
  \<open>gl_core_filter_chain\<close> without their bodies, so the chain is the record of what its
  setters were given: per pass number the pass info, the two shader stages, the frame
  count period and the name, the parameter bindings in call order, the static textures
  in call order and the preset.
\<close>

record gl_core_filter_chain =
  chain_pass_info :: "nat \<rightharpoonup> gl_core_filter_chain_pass_info"
  chain_shader :: "nat \<times> gl_shader_stage \<rightharpoonup> u32 list"
  chain_frame_count_period :: "nat \<rightharpoonup> u32"
  chain_pass_name :: "nat \<rightharpoonup> string"
  chain_parameters :: "(nat \<times> nat \<times> string) list"
  chain_luts :: "static_texture list"
  chain_shader_preset :: "video_shader option"

definition new_gl_core_filter_chain :: gl_core_filter_chain where
  "new_gl_core_filter_chain =
     \<lparr>chain_pass_info = Map.empty, chain_shader = Map.empty,
      chain_frame_count_period = Map.empty, chain_pass_name = Map.empty,
      chain_parameters = [], chain_luts = [], chain_shader_preset = None\<rparr>"

definition set_pass_info ::
  "gl_core_filter_chain \<Rightarrow> nat \<Rightarrow> gl_core_filter_chain_pass_info \<Rightarrow> gl_core_filter_chain" where
  "set_pass_info chain i info = chain\<lparr>chain_pass_info := (chain_pass_info chain)(i \<mapsto> info)\<rparr>"

definition set_shader ::
  "gl_core_filter_chain \<Rightarrow> nat \<Rightarrow> gl_shader_stage \<Rightarrow> u32 list \<Rightarrow> gl_core_filter_chain" where
  "set_shader chain i stage spirv =
     chain\<lparr>chain_shader := (chain_shader chain)((i, stage) \<mapsto> spirv)\<rparr>"

definition set_frame_count_period ::
  "gl_core_filter_chain \<Rightarrow> nat \<Rightarrow> u32 \<Rightarrow> gl_core_filter_chain" where
  "set_frame_count_period chain i period =
     chain\<lparr>chain_frame_count_period := (chain_frame_count_period chain)(i \<mapsto> period)\<rparr>"

definition set_pass_name :: "gl_core_filter_chain \<Rightarrow> nat \<Rightarrow> string \<Rightarrow> gl_core_filter_chain" where
  "set_pass_name chain i name = chain\<lparr>chain_pass_name := (chain_pass_name chain)(i \<mapsto> name)\<rparr>"

definition add_parameter ::
  "gl_core_filter_chain \<Rightarrow> nat \<Rightarrow> nat \<Rightarrow> string \<Rightarrow> gl_core_filter_chain" where
  "add_parameter chain i parameter_index ident =
     chain\<lparr>chain_parameters := chain_parameters chain @ [(i, parameter_index, ident)]\<rparr>"

definition add_static_texture ::
  "gl_core_filter_chain \<Rightarrow> static_texture \<Rightarrow> gl_core_filter_chain" where
  "add_static_texture chain texture = chain\<lparr>chain_luts := chain_luts chain @ [texture]\<rparr>"

definition set_shader_preset :: "gl_core_filter_chain \<Rightarrow> video_shader \<Rightarrow> gl_core_filter_chain" where
  "set_shader_preset chain shader = chain\<lparr>chain_shader_preset := Some shader\<rparr>"

text \<open>
  What the loader takes from headers and included files: the limit \<open>GFX_MAX_PARAMETERS\<close>, the sizes of the \<open>id\<close> and \<open>desc\<close> arrays of
  \<open>video_shader_parameter\<close>, and the two built-in pass-through shaders.
\<close>

record loader_constants =
  GFX_MAX_PARAMETERS :: nat
  sizeof_param_id :: nat
  sizeof_param_desc :: nat
  opaque_vert :: "u32 list"
  opaque_frag :: "u32 list"

text \<open>
  The collaborators the loader calls: opening and parsing the preset, resolving paths,
  decoding a LUT image (its width and height), compiling a pass, reading the current
  parameter values, and \<open>gl_core_filter_chain::init\<close>, of which only the outcome is
  known.
\<close>

record loader_collaborators =
  config_file_new :: "string \<Rightarrow> bool"
  video_shader_read_conf_cgp :: "string \<Rightarrow> video_shader option"
  video_shader_resolve_relative :: "video_shader \<Rightarrow> string \<Rightarrow> video_shader"
  image_texture_load :: "string \<Rightarrow> (u32 \<times> u32) option"
  glslang_compile_shader :: "string \<Rightarrow> glslang_output option"
  video_shader_resolve_current_parameters :: "string \<Rightarrow> video_shader \<Rightarrow> video_shader option"
  chain_init :: "gl_core_filter_chain \<Rightarrow> bool"

text \<open>
  Every \<open>return nullptr\<close> of the loader is one of these values, except the last: with no
  pass at all the loader reads \<open>shader->pass[shader->passes - 1]\<close> out of range.
\<close>

datatype loader_error =
  ConfigFileFailed
| ReadConfFailed
| LoadLutsFailed
| CompileShaderFailed
| ExceededMaximumParameters
| DuplicateParameterMismatch
| ResolveCurrentParametersFailed
| ChainInitFailed
| PassIndexOutOfRange

subsection \<open>Static textures\<close>

definition gl_core_filter_chain_load_lut ::
  "loader_collaborators \<Rightarrow> video_shader_lut \<Rightarrow> static_texture option" where
  "gl_core_filter_chain_load_lut ext shader =
     (case image_texture_load ext (lut_path shader) of
        None \<Rightarrow> None
      | Some (width, height) \<Rightarrow>
          (let levels = lut_levels (lut_mipmap shader) width height
           in Some \<lparr>st_id = lut_id shader, st_width = width, st_height = height,
                 st_linear = (lut_filter shader \<noteq> RARCH_FILTER_NEAREST),
                 st_mipmap = (1 < levels),
                 st_address = address_to_gl (wrap_to_address (lut_wrap shader)),
                 st_levels = levels\<rparr>))"

fun gl_core_filter_chain_load_luts ::
  "loader_collaborators \<Rightarrow> gl_core_filter_chain \<Rightarrow> video_shader_lut list
    \<Rightarrow> gl_core_filter_chain option" where
  "gl_core_filter_chain_load_luts ext chain [] = Some chain"
| "gl_core_filter_chain_load_luts ext chain (l # ls) =
     (case gl_core_filter_chain_load_lut ext l of
        None \<Rightarrow> None
      | Some img \<Rightarrow> gl_core_filter_chain_load_luts ext (add_static_texture chain img) ls)"

subsection \<open>Tunable parameters\<close>

text \<open>\<open>strlcpy\<close> into an array of \<open>n\<close> characters keeps at most \<open>n - 1\<close> of them.\<close>

definition strlcpy :: "string \<Rightarrow> nat \<Rightarrow> string" where
  "strlcpy src n = take (n - 1) src"

text \<open>
  \<open>find_if\<close> over the stored parameters: the index of the first one whose \<open>id\<close> equals
  the declared one, if any.
\<close>

fun find_parameter :: "string \<Rightarrow> video_shader_parameter list \<Rightarrow> nat option" where
  "find_parameter ident [] = None"
| "find_parameter ident (p # ps) =
     (if ident = sp_id p then Some 0
      else (case find_parameter ident ps of None \<Rightarrow> None | Some k \<Rightarrow> Some (Suc k)))"

definition parameter_differs :: "glslang_parameter \<Rightarrow> video_shader_parameter \<Rightarrow> bool" where
  "parameter_differs meta_param itr \<longleftrightarrow>
     mp_desc meta_param \<noteq> sp_desc itr \<or>
     float_ne (mp_initial meta_param) (sp_initial itr) \<or>
     float_ne (mp_minimum meta_param) (sp_minimum itr) \<or>
     float_ne (mp_maximum meta_param) (sp_maximum itr) \<or>
     float_ne (mp_step meta_param) (sp_step itr)"

definition store_parameter :: "loader_constants \<Rightarrow> glslang_parameter \<Rightarrow> video_shader_parameter" where
  "store_parameter k meta_param =
     \<lparr>sp_id = strlcpy (mp_id meta_param) (sizeof_param_id k),
      sp_desc = strlcpy (mp_desc meta_param) (sizeof_param_desc k),
      sp_current = mp_initial meta_param,
      sp_initial = mp_initial meta_param,
      sp_minimum = mp_minimum meta_param,
      sp_maximum = mp_maximum meta_param,
      sp_step = mp_step meta_param\<rparr>"

text \<open>
  The loop over \<open>output.meta.parameters\<close> of pass \<open>i\<close>.  Its state is the stored
  parameters of the preset and the chain.
\<close>

fun add_parameters ::
  "loader_constants \<Rightarrow> nat \<Rightarrow> glslang_parameter list
    \<Rightarrow> video_shader_parameter list \<times> gl_core_filter_chain
    \<Rightarrow> loader_error + video_shader_parameter list \<times> gl_core_filter_chain" where
  "add_parameters k i [] st = Inr st"
| "add_parameters k i (meta_param # rest) (params, chain) =
     (if GFX_MAX_PARAMETERS k \<le> length params then Inl ExceededMaximumParameters
      else (case find_parameter (mp_id meta_param) params of
          Some itr \<Rightarrow>
            (if parameter_differs meta_param (params ! itr) then Inl DuplicateParameterMismatch
             else add_parameters k i rest
                    (params, add_parameter chain i itr (mp_id meta_param)))
        | None \<Rightarrow>
            add_parameters k i rest
              (params @ [store_parameter k meta_param],
               add_parameter chain i (length params) (mp_id meta_param))))"

subsection \<open>Pass info of one preset pass\<close>

text \<open>
  The values a pass info has when the loop body starts, and the pass info the body ends
  with.  \<open>next_pass\<close> is the following pass if there is one, \<open>is_last\<close> is the test
  \<open>i + 1 == shader->passes\<close>, \<open>flt\<close> is the default filter given to the loader and
  \<open>meta_format\<close> is the render target format the shader declares.
\<close>

definition initial_pass_info :: gl_core_filter_chain_pass_info where
  "initial_pass_info =
     \<lparr>scale_type_x = GL_CORE_FILTER_CHAIN_SCALE_ORIGINAL,
      scale_type_y = GL_CORE_FILTER_CHAIN_SCALE_ORIGINAL,
      scale_x = 0, scale_y = 0, rt_format = GL_FORMAT_0,
      source_filter = GL_CORE_FILTER_CHAIN_LINEAR,
      mip_filter = GL_CORE_FILTER_CHAIN_LINEAR,
      address = GL_CORE_FILTER_CHAIN_ADDRESS_REPEAT,
      max_levels = 0\<rparr>"

definition preset_pass_info ::
  "gl_core_filter_chain_filter \<Rightarrow> video_shader_pass \<Rightarrow> video_shader_pass option \<Rightarrow> bool
    \<Rightarrow> glslang_format \<Rightarrow> gl_core_filter_chain_pass_info" where
  "preset_pass_info flt p next_pass is_last meta_format =
     (let info0 = initial_pass_info;
          info1 = info0\<lparr>source_filter :=
                    (if pass_filter p = RARCH_FILTER_UNSPEC then flt
                     else if pass_filter p = RARCH_FILTER_LINEAR then GL_CORE_FILTER_CHAIN_LINEAR
                     else GL_CORE_FILTER_CHAIN_NEAREST)\<rparr>;
          info2 = info1\<lparr>address := wrap_to_address (pass_wrap p), max_levels := 1\<rparr>;
          info3 = (case next_pass of
                     Some np \<Rightarrow> (if pass_mipmap np then info2\<lparr>max_levels := - 1\<rparr> else info2)
                   | None \<Rightarrow> info2);
          info4 = info3\<lparr>mip_filter :=
                    (if pass_filter p \<noteq> RARCH_FILTER_NEAREST \<and> 1 < max_levels info3
                     then GL_CORE_FILTER_CHAIN_LINEAR else GL_CORE_FILTER_CHAIN_NEAREST)\<rparr>;
          fmt = (if meta_format = SLANG_FORMAT_UNKNOWN then SLANG_FORMAT_R8G8B8A8_UNORM
                 else meta_format)
      in if \<not> fbo_valid (fbo p) then
           info4\<lparr>scale_type_x := (if is_last then GL_CORE_FILTER_CHAIN_SCALE_VIEWPORT
                                    else GL_CORE_FILTER_CHAIN_SCALE_SOURCE),
                  scale_type_y := (if is_last then GL_CORE_FILTER_CHAIN_SCALE_VIEWPORT
                                    else GL_CORE_FILTER_CHAIN_SCALE_SOURCE),
                  scale_x := 1, scale_y := 1,
                  rt_format := (if is_last then GL_FORMAT_0 else convert_glslang_format fmt)\<rparr>
         else
           (let fmt' = (if fbo_srgb_fbo (fbo p) then SLANG_FORMAT_R8G8B8A8_SRGB
                        else if fbo_fp_fbo (fbo p) then SLANG_FORMAT_R16G16B16A16_SFLOAT
                        else fmt);
                info5 = info4\<lparr>rt_format := convert_glslang_format fmt'\<rparr>;
                info6 = (case fbo_type_x (fbo p) of
                           RARCH_SCALE_INPUT \<Rightarrow>
                             info5\<lparr>scale_x := fbo_scale_x (fbo p),
                                    scale_type_x := GL_CORE_FILTER_CHAIN_SCALE_SOURCE\<rparr>
                         | RARCH_SCALE_ABSOLUTE \<Rightarrow>
                             info5\<lparr>scale_x := float_of_u32 (fbo_abs_x (fbo p)),
                                    scale_type_x := GL_CORE_FILTER_CHAIN_SCALE_ABSOLUTE\<rparr>
                         | RARCH_SCALE_VIEWPORT \<Rightarrow>
                             info5\<lparr>scale_x := fbo_scale_x (fbo p),
                                    scale_type_x := GL_CORE_FILTER_CHAIN_SCALE_VIEWPORT\<rparr>)
            in (case fbo_type_y (fbo p) of
                  RARCH_SCALE_INPUT \<Rightarrow>
                    info6\<lparr>scale_y := fbo_scale_y (fbo p),
                           scale_type_y := GL_CORE_FILTER_CHAIN_SCALE_SOURCE\<rparr>
                | RARCH_SCALE_ABSOLUTE \<Rightarrow>
                    info6\<lparr>scale_y := float_of_u32 (fbo_abs_y (fbo p)),
                           scale_type_y := GL_CORE_FILTER_CHAIN_SCALE_ABSOLUTE\<rparr>
                | RARCH_SCALE_VIEWPORT \<Rightarrow>
                    info6\<lparr>scale_y := fbo_scale_y (fbo p),
                           scale_type_y := GL_CORE_FILTER_CHAIN_SCALE_VIEWPORT\<rparr>)))"

text \<open>The pass info of the extra pass that follows a last pass rendering to a framebuffer.\<close>

definition viewport_pass_info :: "gl_core_filter_chain_filter \<Rightarrow> gl_core_filter_chain_pass_info" where
  "viewport_pass_info flt =
     \<lparr>scale_type_x = GL_CORE_FILTER_CHAIN_SCALE_VIEWPORT,
      scale_type_y = GL_CORE_FILTER_CHAIN_SCALE_VIEWPORT,
      scale_x = 1, scale_y = 1, rt_format = GL_FORMAT_0,
      source_filter = flt,
      mip_filter = GL_CORE_FILTER_CHAIN_NEAREST,
      address = GL_CORE_FILTER_CHAIN_ADDRESS_CLAMP_TO_EDGE,
      max_levels = 0\<rparr>"

subsection \<open>The loop over the passes and the loader\<close>

text \<open>
  One iteration of the loop over the passes, for pass number \<open>i\<close> of the pass list
  \<open>ps\<close>: compile, take in the declared parameters, hand shaders, frame count period
  and names to the chain, then the pass info.
\<close>

definition load_pass ::
  "loader_constants \<Rightarrow> loader_collaborators \<Rightarrow> gl_core_filter_chain_filter
    \<Rightarrow> video_shader_pass list \<Rightarrow> nat
    \<Rightarrow> video_shader_parameter list \<times> gl_core_filter_chain
    \<Rightarrow> loader_error + video_shader_parameter list \<times> gl_core_filter_chain" where
  "load_pass k ext flt ps i st =
     (let p = ps ! i;
          next_pass = (if i + 1 < length ps then Some (ps ! (i + 1)) else None)
      in case glslang_compile_shader ext (source_path p) of
           None \<Rightarrow> Inl CompileShaderFailed
         | Some output \<Rightarrow>
             (case add_parameters k i (meta_parameters output) st of
                Inl e \<Rightarrow> Inl e
              | Inr (params, chain) \<Rightarrow>
                  (let chain1 = set_shader chain i GL_VERTEX_SHADER (vertex output);
                       chain2 = set_shader chain1 i GL_FRAGMENT_SHADER (fragment output);
                       chain3 = set_frame_count_period chain2 i (frame_count_mod p);
                       chain4 = (if meta_name output \<noteq> []
                                 then set_pass_name chain3 i (meta_name output) else chain3);
                       chain5 = (if pass_alias p \<noteq> []
                                 then set_pass_name chain4 i (pass_alias p) else chain4);
                       info = preset_pass_info flt p next_pass (i + 1 = length ps)
                                (meta_rt_format output)
                   in Inr (params, set_pass_info chain5 i info))))"

fun load_passes ::
  "loader_constants \<Rightarrow> loader_collaborators \<Rightarrow> gl_core_filter_chain_filter
    \<Rightarrow> video_shader_pass list \<Rightarrow> nat list
    \<Rightarrow> video_shader_parameter list \<times> gl_core_filter_chain
    \<Rightarrow> loader_error + video_shader_parameter list \<times> gl_core_filter_chain" where
  "load_passes k ext flt ps [] st = Inr st"
| "load_passes k ext flt ps (i # is) st =
     (case load_pass k ext flt ps i st of
        Inl e \<Rightarrow> Inl e
      | Inr st' \<Rightarrow> load_passes k ext flt ps is st')"

definition append_viewport_pass ::
  "loader_constants \<Rightarrow> gl_core_filter_chain_filter \<Rightarrow> nat \<Rightarrow> gl_core_filter_chain
    \<Rightarrow> gl_core_filter_chain" where
  "append_viewport_pass k flt n chain =
     (let chain1 = set_pass_info chain n (viewport_pass_info flt);
          chain2 = set_shader chain1 n GL_VERTEX_SHADER (opaque_vert k)
      in set_shader chain2 n GL_FRAGMENT_SHADER (opaque_frag k))"

text \<open>
  \<open>gl_core_filter_chain_create_from_preset\<close>.  \<open>Inr chain\<close> is the chain handed to the
  caller; \<open>Inl e\<close> with \<open>e \<noteq> PassIndexOutOfRange\<close> is a \<open>return nullptr\<close>, at which the
  \<open>unique_ptr\<close>s destroy the preset, the configuration file and the chain built so far.
\<close>

definition gl_core_filter_chain_create_from_preset ::
  "loader_constants \<Rightarrow> loader_collaborators \<Rightarrow> string \<Rightarrow> gl_core_filter_chain_filter
    \<Rightarrow> loader_error + gl_core_filter_chain" where
  "gl_core_filter_chain_create_from_preset k ext path flt =
     (if \<not> config_file_new ext path then Inl ConfigFileFailed
      else case video_shader_read_conf_cgp ext path of
        None \<Rightarrow> Inl ReadConfFailed
      | Some shader0 \<Rightarrow>
          (let shader = video_shader_resolve_relative ext shader0 path
           in if pass shader = [] then Inl PassIndexOutOfRange
              else
                (let last_pass_is_fbo = fbo_valid (fbo (pass shader ! (length (pass shader) - 1)));
                     chain = new_gl_core_filter_chain
                 in case (if lut shader \<noteq> []
                          then gl_core_filter_chain_load_luts ext chain (lut shader)
                          else Some chain) of
                      None \<Rightarrow> Inl LoadLutsFailed
                    | Some chain1 \<Rightarrow>
                        (case load_passes k ext flt (pass shader)
                                [0..<length (pass shader)] ([], chain1) of
                           Inl e \<Rightarrow> Inl e
                         | Inr (params, chain2) \<Rightarrow>
                             (let chain3 = (if last_pass_is_fbo
                                    then append_viewport_pass k flt (length (pass shader)) chain2
                                    else chain2)
                              in case video_shader_resolve_current_parameters ext path
                                        (shader\<lparr>parameters := params\<rparr>) of
                                   None \<Rightarrow> Inl ResolveCurrentParametersFailed
                                 | Some shader' \<Rightarrow>
                                     (let chain4 = set_shader_preset chain3 shader'
                                      in if \<not> chain_init ext chain4 then Inl ChainInitFailed
                                         else Inr chain4))))))"

text \<open>The pointer the caller receives: null unless the loader ran to its end.\<close>

definition returned_chain :: "loader_error + gl_core_filter_chain \<Rightarrow> gl_core_filter_chain option" where
  "returned_chain r = (case r of Inl e \<Rightarrow> None | Inr chain \<Rightarrow> Some chain)"

subsection \<open>Notions used to state the properties of the loader\<close>

text \<open>
  The preset as parsed and path-resolved, the declarations the compiler reports for a
  pass (none when it does not compile), and all declarations of a preset in the order
  the loader meets them.
\<close>

definition preset_of :: "loader_collaborators \<Rightarrow> string \<Rightarrow> video_shader option" where
  "preset_of ext path =
     (case video_shader_read_conf_cgp ext path of
        None \<Rightarrow> None
      | Some shader0 \<Rightarrow> Some (video_shader_resolve_relative ext shader0 path))"

definition pass_declarations ::
  "loader_collaborators \<Rightarrow> video_shader_pass \<Rightarrow> glslang_parameter list" where
  "pass_declarations ext p =
     (case glslang_compile_shader ext (source_path p) of
        None \<Rightarrow> []
      | Some output \<Rightarrow> meta_parameters output)"

definition declared_parameters ::
  "loader_collaborators \<Rightarrow> video_shader_pass list \<Rightarrow> glslang_parameter list" where
  "declared_parameters ext ps = concat (map (pass_declarations ext) ps)"

definition preset_declarations :: "loader_collaborators \<Rightarrow> string \<Rightarrow> glslang_parameter list" where
  "preset_declarations ext path =
     (case preset_of ext path of
        None \<Rightarrow> []
      | Some shader \<Rightarrow> declared_parameters ext (pass shader))"

text \<open>
  Two declarations agree when their descriptions are equal and none of their four
  numbers differ under \<open>!=\<close>; a declaration holding a NaN agrees with none.  The first
  declaration of an id in a list of declarations.  A list is free of conflicts when
  every declaration that repeats the id of an earlier one agrees with the first
  declaration of that id.
\<close>

definition same_declaration :: "glslang_parameter \<Rightarrow> glslang_parameter \<Rightarrow> bool" where
  "same_declaration d d' \<longleftrightarrow>
     mp_desc d = mp_desc d' \<and> \<not> float_ne (mp_initial d) (mp_initial d') \<and>
     \<not> float_ne (mp_minimum d) (mp_minimum d') \<and>
     \<not> float_ne (mp_maximum d) (mp_maximum d') \<and> \<not> float_ne (mp_step d) (mp_step d')"

definition first_declaration :: "string \<Rightarrow> glslang_parameter list \<Rightarrow> glslang_parameter option" where
  "first_declaration ident ds = find (\<lambda>d. mp_id d = ident) ds"

definition duplicates_match :: "glslang_parameter list \<Rightarrow> bool" where
  "duplicates_match ds =
     list_all (\<lambda>j. case first_declaration (mp_id (ds ! j)) (take j ds) of
                      None \<Rightarrow> True
                    | Some d0 \<Rightarrow> same_declaration (ds ! j) d0) [0..<length ds]"

text \<open>
  The parameter table has room for a list of declarations when fewer than
  \<open>GFX_MAX_PARAMETERS\<close> distinct ids come before each of them, so that the table is
  not full when the declaration is reached.  \<open>table_has_room_from\<close> is the same after
  the declarations \<open>seen\<close>.
\<close>

definition table_has_room_from ::
  "loader_constants \<Rightarrow> glslang_parameter list \<Rightarrow> glslang_parameter list \<Rightarrow> bool" where
  "table_has_room_from k seen ds =
     list_all (\<lambda>j. card (mp_id ` set (seen @ take j ds)) < GFX_MAX_PARAMETERS k) [0..<length ds]"

definition parameter_table_has_room :: "loader_constants \<Rightarrow> glslang_parameter list \<Rightarrow> bool" where
  "parameter_table_has_room k ds =
     list_all (\<lambda>j. card (mp_id ` set (take j ds)) < GFX_MAX_PARAMETERS k) [0..<length ds]"

text \<open>A declaration fits when \<open>strlcpy\<close> stores its id and its description whole.\<close>

definition declaration_fits :: "loader_constants \<Rightarrow> glslang_parameter \<Rightarrow> bool" where
  "declaration_fits k d \<longleftrightarrow>
     length (mp_id d) < sizeof_param_id k \<and> length (mp_desc d) < sizeof_param_desc k"

text \<open>
  The invariant of the parameter loop: after the declarations \<open>seen\<close>, the stored
  parameters have distinct ids, each is the stored form of the first declaration of its
  id, and every id seen is stored.
\<close>

definition stored_first ::
  "loader_constants \<Rightarrow> glslang_parameter list \<Rightarrow> video_shader_parameter list \<Rightarrow> bool" where
  "stored_first k seen params \<longleftrightarrow>
     distinct (map sp_id params) \<and>
     (\<forall>p \<in> set params. \<exists>d. first_declaration (sp_id p) seen = Some d \<and> p = store_parameter k d) \<and>
     (\<forall>d \<in> set seen. mp_id d \<in> sp_id ` set params)"

text \<open>
  The pass numbers of a chain: every number one of the per-pass setters was called with.
\<close>

definition chain_pass_numbers :: "gl_core_filter_chain \<Rightarrow> nat set" where
  "chain_pass_numbers chain =
     dom (chain_pass_info chain) \<union> fst ` dom (chain_shader chain) \<union>
     dom (chain_frame_count_period chain) \<union> dom (chain_pass_name chain)"

text \<open>
  The loader returned a null pointer; and the ways a preset can be broken: the file
  cannot be opened or parsed, a LUT image cannot be decoded, a pass does not compile, or
  a declaration disagrees with the first declaration of its id.
\<close>

definition returns_null :: "loader_error + gl_core_filter_chain \<Rightarrow> bool" where
  "returns_null r \<longleftrightarrow> (\<exists>e. r = Inl e \<and> e \<noteq> PassIndexOutOfRange)"

definition malformed_preset :: "loader_collaborators \<Rightarrow> string \<Rightarrow> bool" where
  "malformed_preset ext path \<longleftrightarrow>
     \<not> config_file_new ext path \<or>
     preset_of ext path = None \<or>
     (\<exists>shader. preset_of ext path = Some shader \<and>
        ((\<exists>l \<in> set (lut shader). image_texture_load ext (lut_path l) = None) \<or>
         (\<exists>p \<in> set (pass shader). glslang_compile_shader ext (source_path p) = None))) \<or>
     \<not> duplicates_match (preset_declarations ext path)"

subsection \<open>A small preset to run the loader on\<close>

text \<open>
  Two passes \<open>a\<close> and \<open>b\<close>, the first rendering to a framebuffer at twice the input
  size; each shader declares one parameter.  \<open>example_collaborators d valid\<close> lets pass
  \<open>b\<close> declare \<open>d\<close> and sets the \<open>fbo.valid\<close> flag of pass \<open>b\<close>.
\<close>

definition example_constants :: "nat \<Rightarrow> loader_constants" where
  "example_constants n =
     \<lparr>GFX_MAX_PARAMETERS = n, sizeof_param_id = 64, sizeof_param_desc = 64,
      opaque_vert = [119734787, 1], opaque_frag = [119734787, 2]\<rparr>"

definition example_parameter :: "string \<Rightarrow> rat \<Rightarrow> glslang_parameter" where
  "example_parameter ident minimum =
     \<lparr>mp_id = ident, mp_desc = ''Gain'', mp_initial = Float_Number 1,
      mp_minimum = Float_Number minimum, mp_maximum = Float_Number 2,
      mp_step = Float_Number (1 / 10)\<rparr>"

definition example_output :: "glslang_parameter \<Rightarrow> glslang_output" where
  "example_output d =
     \<lparr>vertex = [119734787, 3], fragment = [119734787, 4], meta_parameters = [d],
      meta_name = [], meta_rt_format = SLANG_FORMAT_UNKNOWN\<rparr>"

definition example_pass :: "string \<Rightarrow> bool \<Rightarrow> video_shader_pass" where
  "example_pass path valid =
     \<lparr>source_path = path, pass_alias = [], pass_filter = RARCH_FILTER_UNSPEC,
      pass_wrap = RARCH_WRAP_EDGE, frame_count_mod = 0, pass_mipmap = False,
      fbo = \<lparr>fbo_valid = valid, fbo_type_x = RARCH_SCALE_INPUT, fbo_type_y = RARCH_SCALE_INPUT,
             fbo_scale_x = 2, fbo_scale_y = 2, fbo_abs_x = 0, fbo_abs_y = 0,
             fbo_srgb_fbo = False, fbo_fp_fbo = False\<rparr>\<rparr>"

definition example_shader :: "bool \<Rightarrow> video_shader" where
  "example_shader valid =
     \<lparr>pass = [example_pass ''a'' True, example_pass ''b'' valid], lut = [], parameters = []\<rparr>"

definition example_collaborators :: "glslang_parameter \<Rightarrow> bool \<Rightarrow> loader_collaborators" where
  "example_collaborators d valid =
     \<lparr>config_file_new = (\<lambda>path. True),
      video_shader_read_conf_cgp = (\<lambda>path. Some (example_shader valid)),
      video_shader_resolve_relative = (\<lambda>shader path. shader),
      image_texture_load = (\<lambda>path. None),
      glslang_compile_shader =
        (\<lambda>path. if path = ''a'' then Some (example_output (example_parameter ''P'' 0))
                else Some (example_output d)),
      video_shader_resolve_current_parameters = (\<lambda>path shader. Some shader),
      chain_init = (\<lambda>chain. True)\<rparr>"

section \<open>The driver (gl\_core.c)\<close>

text \<open>
  The fields of \<open>gl_core_t\<close> that the filter chain glue reads and writes.  The chain
  behind the pointer \<open>filter_chain\<close> is a value of type \<open>'c\<close>; \<open>None\<close> is the null
  pointer.  A streamed texture keeps, besides its GL name and size, the frame last
  uploaded into it.  GL names come from a counter.
\<close>

definition GL_CORE_NUM_TEXTURES :: u32 where
  "GL_CORE_NUM_TEXTURES = 4"

record 'f gl_core_streamed_texture =
  streamed_tex :: nat
  streamed_width :: u32
  streamed_height :: u32
  streamed_pixels :: "'f option"

record gl_core_filter_chain_texture =
  texture_image :: nat
  texture_width :: u32
  texture_height :: u32
  texture_format :: gl_format

record gl_core_viewport =
  rect_x :: u32
  rect_y :: u32
  rect_width :: u32
  rect_height :: u32

record video_frame_info =
  info_width :: u32
  info_height :: u32

record ('c, 'f) gl_core =
  ctx_driver :: bool
  filter_chain :: "'c option"
  video_info_smooth :: bool
  video_info_rgb32 :: bool
  vp :: gl_core_viewport
  filter_chain_vp :: gl_core_viewport
  vp_out_width :: u32
  vp_out_height :: u32
  textures :: "'f gl_core_streamed_texture list"
  textures_index :: u32
  gl_last_name :: nat

datatype rarch_shader_type = RARCH_SHADER_NONE | RARCH_SHADER_SLANG | RARCH_SHADER_OTHER

text \<open>
  What the glue calls: the two chain constructors, the four per-frame entry points of the
  chain, the frontend's preset path and its type, and the rectangle
  \<open>gl_core_set_viewport\<close> arrives at (its aspect ratio arithmetic is in floating point
  and reads frontend state; the projection matrices it sets are left out).
\<close>

record ('c, 'f) driver_collaborators =
  fc_create_default :: "gl_core_filter_chain_filter \<Rightarrow> 'c option"
  fc_create_from_preset :: "string \<Rightarrow> gl_core_filter_chain_filter \<Rightarrow> 'c option"
  fc_set_input_texture :: "'c \<Rightarrow> gl_core_filter_chain_texture \<Rightarrow> 'c"
  fc_build_offscreen_passes :: "'c \<Rightarrow> gl_core_viewport \<Rightarrow> 'c"
  fc_build_viewport_pass :: "'c \<Rightarrow> gl_core_viewport \<Rightarrow> 'c"
  fc_end_frame :: "'c \<Rightarrow> 'c"
  retroarch_get_shader_preset :: "string option"
  video_shader_parse_type :: "string option \<Rightarrow> rarch_shader_type"
  viewport_rect :: "('c, 'f) gl_core \<Rightarrow> video_frame_info \<Rightarrow> u32 \<Rightarrow> u32 \<Rightarrow> bool \<Rightarrow> gl_core_viewport"

text \<open>
  The calls one frame makes, in the order it makes them.  \<open>glBindFramebuffer\<close>,
  \<open>glClearColor\<close> and \<open>glClear\<close> are the one call \<open>CALL_clear_backbuffer\<close>.  A later
  revision of \<open>gl_core_frame\<close> draws the menu and the message between \<open>end_frame\<close>
  and the title update; its calls into the filter chain are the same.
\<close>

datatype 'f frame_call =
  CALL_update_cpu_texture nat 'f
| CALL_set_viewport
| CALL_set_input_texture gl_core_filter_chain_texture
| CALL_build_offscreen_passes gl_core_viewport
| CALL_clear_backbuffer
| CALL_build_viewport_pass gl_core_viewport
| CALL_end_frame
| CALL_update_window_title
| CALL_swap_buffers

fun is_filter_chain_call :: "'f frame_call \<Rightarrow> bool" where
  "is_filter_chain_call (CALL_set_input_texture t) = True"
| "is_filter_chain_call (CALL_build_offscreen_passes v) = True"
| "is_filter_chain_call (CALL_build_viewport_pass v) = True"
| "is_filter_chain_call CALL_end_frame = True"
| "is_filter_chain_call c = False"

text \<open>
  A frame fails where the C code would read outside \<open>textures\<close> or call into a null
  chain.
\<close>

datatype frame_error = TextureIndexOutOfRange | NullFilterChain

definition filter_of_smooth :: "bool \<Rightarrow> gl_core_filter_chain_filter" where
  "filter_of_smooth smooth =
     (if smooth then GL_CORE_FILTER_CHAIN_LINEAR else GL_CORE_FILTER_CHAIN_NEAREST)"

definition gl_core_init_default_filter_chain ::
  "('c, 'f) driver_collaborators \<Rightarrow> ('c, 'f) gl_core \<Rightarrow> bool \<times> ('c, 'f) gl_core" where
  "gl_core_init_default_filter_chain ext gl =
     (if \<not> ctx_driver gl then (False, gl)
      else (let gl1 = gl\<lparr>filter_chain :=
                        fc_create_default ext (filter_of_smooth (video_info_smooth gl))\<rparr>
            in if filter_chain gl1 = None then (False, gl1) else (True, gl1)))"

definition gl_core_init_filter_chain_preset ::
  "('c, 'f) driver_collaborators \<Rightarrow> ('c, 'f) gl_core \<Rightarrow> string \<Rightarrow> bool \<times> ('c, 'f) gl_core" where
  "gl_core_init_filter_chain_preset ext gl shader_path =
     (let gl1 = gl\<lparr>filter_chain :=
                   fc_create_from_preset ext shader_path (filter_of_smooth (video_info_smooth gl))\<rparr>
      in if filter_chain gl1 = None then (False, gl1) else (True, gl1))"

definition gl_core_init_filter_chain ::
  "('c, 'f) driver_collaborators \<Rightarrow> ('c, 'f) gl_core \<Rightarrow> bool \<times> ('c, 'f) gl_core" where
  "gl_core_init_filter_chain ext gl =
     (let shader_path = retroarch_get_shader_preset ext;
          type = video_shader_parse_type ext shader_path
      in if type = RARCH_SHADER_NONE then gl_core_init_default_filter_chain ext gl
         else if type \<noteq> RARCH_SHADER_SLANG then gl_core_init_default_filter_chain ext gl
         else (case shader_path of
                 None \<Rightarrow> (True, snd (gl_core_init_default_filter_chain ext gl))
               | Some p \<Rightarrow>
                   (let (ok, gl1) = gl_core_init_filter_chain_preset ext gl p
                    in if \<not> ok then (True, snd (gl_core_init_default_filter_chain ext gl1))
                       else (True, gl1))))"

text \<open>
  \<open>gl_core_set_shader\<close>: \<open>data\<close> is the handle, \<open>None\<close> when null; the result is the
  return value and the handle's new state.  Freeing the old chain leaves the pointer
  null until a constructor sets it.
\<close>

definition gl_core_set_shader ::
  "('c, 'f) driver_collaborators \<Rightarrow> ('c, 'f) gl_core option \<Rightarrow> rarch_shader_type
    \<Rightarrow> string option \<Rightarrow> bool \<times> ('c, 'f) gl_core option" where
  "gl_core_set_shader ext data type path =
     (case data of
        None \<Rightarrow> (False, None)
      | Some gl \<Rightarrow>
          (let path1 = (if type \<noteq> RARCH_SHADER_SLANG \<and> path \<noteq> None then None else path);
               gl1 = gl\<lparr>filter_chain := None\<rparr>
           in case path1 of
                None \<Rightarrow> (True, Some (snd (gl_core_init_default_filter_chain ext gl1)))
              | Some p \<Rightarrow>
                  (let (ok, gl2) = gl_core_init_filter_chain_preset ext gl1 p
                   in if \<not> ok
                      then (False, Some (snd (gl_core_init_default_filter_chain ext gl2)))
                      else (True, Some gl2))))"

definition gl_core_update_cpu_texture ::
  "('c, 'f) gl_core \<Rightarrow> 'f gl_core_streamed_texture \<Rightarrow> 'f \<Rightarrow> u32 \<Rightarrow> u32
    \<Rightarrow> 'f gl_core_streamed_texture \<times> nat" where
  "gl_core_update_cpu_texture gl streamed frame width height =
     (let (streamed1, last_name) =
            (if width \<noteq> streamed_width streamed \<or> height \<noteq> streamed_height streamed
             then (streamed\<lparr>streamed_tex := gl_last_name gl + 1,
                             streamed_width := width, streamed_height := height,
                             streamed_pixels := None\<rparr>,
                   gl_last_name gl + 1)
             else (streamed, gl_last_name gl))
      in (streamed1\<lparr>streamed_pixels := Some frame\<rparr>, last_name))"

definition gl_core_set_viewport ::
  "('c, 'f) driver_collaborators \<Rightarrow> ('c, 'f) gl_core \<Rightarrow> video_frame_info \<Rightarrow> u32 \<Rightarrow> u32
    \<Rightarrow> bool \<Rightarrow> bool \<Rightarrow> ('c, 'f) gl_core" where
  "gl_core_set_viewport ext gl video_info viewport_width viewport_height force_full allow_rotate =
     (let r = viewport_rect ext gl video_info viewport_width viewport_height force_full;
          gl1 = gl\<lparr>vp := r\<rparr>;
          gl2 = (if \<not> force_full
                 then gl1\<lparr>vp_out_width := rect_width r, vp_out_height := rect_height r\<rparr>
                 else gl1)
      in gl2\<lparr>filter_chain_vp := vp gl2\<rparr>)"

text \<open>
  \<open>gl_core_frame\<close>.  The result is the return value, the handle's new state and the
  calls made.
\<close>

definition gl_core_frame ::
  "('c, 'f) driver_collaborators \<Rightarrow> ('c, 'f) gl_core option \<Rightarrow> 'f \<Rightarrow> u32 \<Rightarrow> u32
    \<Rightarrow> video_frame_info
    \<Rightarrow> frame_error + bool \<times> ('c, 'f) gl_core option \<times> 'f frame_call list" where
  "gl_core_frame ext data frame frame_width frame_height video_info =
     (case data of
        None \<Rightarrow> Inr (False, None, [])
      | Some gl \<Rightarrow>
          if \<not> (textures_index gl < GL_CORE_NUM_TEXTURES \<and>
                 unat (textures_index gl) < length (textures gl))
          then Inl TextureIndexOutOfRange
          else
            (let slot = unat (textures_index gl);
                 (streamed, last_name) =
                    gl_core_update_cpu_texture gl (textures gl ! slot) frame frame_width frame_height;
                 gl1 = gl\<lparr>textures := (textures gl)[slot := streamed], gl_last_name := last_name\<rparr>;
                 gl2 = gl_core_set_viewport ext gl1 video_info
                         (info_width video_info) (info_height video_info) False True;
                 texture = \<lparr>texture_image = streamed_tex streamed,
                            texture_width = streamed_width streamed,
                            texture_height = streamed_height streamed,
                            texture_format = (if video_info_rgb32 gl2 then GL_RGBA8 else GL_RGB565)\<rparr>
             in case filter_chain gl2 of
                  None \<Rightarrow> Inl NullFilterChain
                | Some chain \<Rightarrow>
                    (let chain1 = fc_set_input_texture ext chain texture;
                         chain2 = fc_build_offscreen_passes ext chain1 (filter_chain_vp gl2);
                         chain3 = fc_build_viewport_pass ext chain2 (filter_chain_vp gl2);
                         chain4 = fc_end_frame ext chain3;
                         gl3 = gl2\<lparr>filter_chain := Some chain4\<rparr>;
                         gl4 = gl3\<lparr>textures_index :=
                                 (textures_index gl3 + 1) AND (GL_CORE_NUM_TEXTURES - 1)\<rparr>
                     in Inr (True, Some gl4,
                          [CALL_update_cpu_texture slot frame,
                           CALL_set_viewport,
                           CALL_set_input_texture texture,
                           CALL_build_offscreen_passes (filter_chain_vp gl2),
                           CALL_clear_backbuffer,
                           CALL_build_viewport_pass (filter_chain_vp gl2),
                           CALL_end_frame,
                           CALL_update_window_title,
                           CALL_swap_buffers]))))"

text \<open>
  Frames one after the other, stopping at the first that fails or returns false; the
  result is the final state and all calls made.
\<close>

fun gl_core_frames ::
  "('c, 'f) driver_collaborators \<Rightarrow> ('c, 'f) gl_core \<Rightarrow> ('f \<times> u32 \<times> u32 \<times> video_frame_info) list
    \<Rightarrow> (('c, 'f) gl_core \<times> 'f frame_call list) option" where
  "gl_core_frames ext gl [] = Some (gl, [])"
| "gl_core_frames ext gl ((frame, w, h, video_info) # rest) =
     (case gl_core_frame ext (Some gl) frame w h video_info of
        Inr (True, Some gl1, calls) \<Rightarrow>
          (case gl_core_frames ext gl1 rest of
             None \<Rightarrow> None
           | Some (gl2, calls') \<Rightarrow> Some (gl2, calls @ calls'))
      | _ \<Rightarrow> None)"

fun uploaded_slots :: "'f frame_call list \<Rightarrow> nat list" where
  "uploaded_slots [] = []"
| "uploaded_slots (CALL_update_cpu_texture slot frame # cs) = slot # uploaded_slots cs"
| "uploaded_slots (c # cs) = uploaded_slots cs"

subsection \<open>A small driver state to run the glue on\<close>

text \<open>
  A handle with a context driver, a chain and four empty streamed textures, and
  collaborators whose chains are numbers: the preset \<open>good.slangp\<close> loads as chain 1,
  every other preset fails, and the stock constructor returns \<open>stock\<close>.
\<close>

definition example_rect :: gl_core_viewport where
  "example_rect = \<lparr>rect_x = 0, rect_y = 0, rect_width = 1024, rect_height = 768\<rparr>"

definition example_gl :: "(nat, nat) gl_core" where
  "example_gl =
     \<lparr>ctx_driver = True, filter_chain = Some 0, video_info_smooth = True,
      video_info_rgb32 = True, vp = example_rect, filter_chain_vp = example_rect,
      vp_out_width = 1024, vp_out_height = 768,
      textures = replicate 4 \<lparr>streamed_tex = 0, streamed_width = 0, streamed_height = 0,
                               streamed_pixels = None\<rparr>,
      textures_index = 0, gl_last_name = 0\<rparr>"

definition example_driver :: "nat option \<Rightarrow> (nat, nat) driver_collaborators" where
  "example_driver stock =
     \<lparr>fc_create_default = (\<lambda>flt. stock),
      fc_create_from_preset = (\<lambda>path flt. if path = ''good.slangp'' then Some 1 else None),
      fc_set_input_texture = (\<lambda>chain texture. chain),
      fc_build_offscreen_passes = (\<lambda>chain rect. chain),
      fc_build_viewport_pass = (\<lambda>chain rect. chain),
      fc_end_frame = (\<lambda>chain. chain),
      retroarch_get_shader_preset = None,
      video_shader_parse_type = (\<lambda>path. RARCH_SHADER_NONE),
      viewport_rect = (\<lambda>gl video_info w h force_full. example_rect)\<rparr>"

definition example_info :: video_frame_info where
  "example_info = \<lparr>info_width = 1024, info_height = 768\<rparr>"

section \<open>The chain at run time, from the specification\<close>

text \<open>
  The member functions of \<open>gl_core_filter_chain\<close>, \<open>Pass\<close> and \<open>Framebuffer\<close> are
  declared in shader\_gl\_core.cpp without their bodies.  What follows is written from
  the specification of the filter chain.
\<close>

subsection \<open>History ring\<close>

text \<open>
  Modelled from the spec: the per-frame state of \<open>gl_core_filter_chain\<close>, whose member
  functions are missing.  The history ring holds the previous original input frames,
  newest first, and has a fixed capacity; \<open>fcs_draws\<close> counts the passes executed.
\<close>

record 'f filter_chain_state =
  fcs_input_texture :: "'f option"
  fcs_original_history :: "'f list"
  fcs_history_size :: nat
  fcs_passes :: nat
  fcs_draws :: nat
  fcs_frame_count :: nat

text \<open>
  Modelled from the spec: the body of \<open>gl_core_filter_chain::set_input_texture\<close> is
  missing.  It records the new frame's source texture and does not render.
\<close>

definition filter_chain_set_input_texture :: "'f filter_chain_state \<Rightarrow> 'f \<Rightarrow> 'f filter_chain_state" where
  "filter_chain_set_input_texture chain texture = chain\<lparr>fcs_input_texture := Some texture\<rparr>"

text \<open>
  Modelled from the spec: the body of \<open>gl_core_filter_chain::build_offscreen_passes\<close> is
  missing.  Every pass but the terminal one is executed in order; the history ring is
  read, not written.
\<close>

definition filter_chain_build_offscreen_passes ::
  "'f filter_chain_state \<Rightarrow> gl_core_viewport \<Rightarrow> 'f filter_chain_state" where
  "filter_chain_build_offscreen_passes chain rect =
     chain\<lparr>fcs_draws := fcs_draws chain + (fcs_passes chain - 1)\<rparr>"

text \<open>
  Modelled from the spec: the body of \<open>gl_core_filter_chain::build_viewport_pass\<close> is
  missing.  The terminal pass is executed.
\<close>

definition filter_chain_build_viewport_pass ::
  "'f filter_chain_state \<Rightarrow> gl_core_viewport \<Rightarrow> 'f filter_chain_state" where
  "filter_chain_build_viewport_pass chain rect = chain\<lparr>fcs_draws := fcs_draws chain + 1\<rparr>"

text \<open>
  Modelled from the spec: the body of \<open>gl_core_filter_chain::end_frame\<close> is missing.  It
  shifts the history ring and inserts the current input texture, the oldest entry
  dropping out of a full ring, and increments the frame count.
\<close>

definition filter_chain_end_frame :: "'f filter_chain_state \<Rightarrow> 'f filter_chain_state" where
  "filter_chain_end_frame chain =
     chain\<lparr>fcs_original_history :=
              take (fcs_history_size chain)
                ((case fcs_input_texture chain of None \<Rightarrow> [] | Some texture \<Rightarrow> [texture])
                   @ fcs_original_history chain),
           fcs_frame_count := fcs_frame_count chain + 1\<rparr>"

text \<open>
  Modelled from the spec: the body of \<open>gl_core_filter_chain::clear_history_and_feedback\<close>
  is missing.  After a reset the history ring is empty.
\<close>

definition filter_chain_reset :: "'f filter_chain_state \<Rightarrow> 'f filter_chain_state" where
  "filter_chain_reset chain = chain\<lparr>fcs_original_history := []\<rparr>"

text \<open>
  Modelled from the spec: one presented frame is the four calls of the per-frame
  protocol, in the order in which \<open>gl_core_frame\<close> makes them; \<open>present_frames\<close>
  presents a list of frames, first to last.
\<close>

definition present_frame ::
  "gl_core_viewport \<Rightarrow> 'f filter_chain_state \<Rightarrow> 'f \<Rightarrow> 'f filter_chain_state" where
  "present_frame rect chain texture =
     filter_chain_end_frame
       (filter_chain_build_viewport_pass
          (filter_chain_build_offscreen_passes
             (filter_chain_set_input_texture chain texture) rect) rect)"

definition present_frames ::
  "gl_core_viewport \<Rightarrow> 'f filter_chain_state \<Rightarrow> 'f list \<Rightarrow> 'f filter_chain_state" where
  "present_frames rect chain frames = foldl (present_frame rect) chain frames"

subsection \<open>Output size of a pass\<close>

text \<open>
  Modelled from the spec: the state of a \<open>Framebuffer\<close> and of a \<open>Pass\<close> as far as
  the output size is concerned; \<open>Size2D\<close> is the struct of the code.
\<close>

record Size2D =
  size_width :: u32
  size_height :: u32

record framebuffer_state =
  fb_size :: Size2D
  fb_format :: gl_format
  fb_allocations :: nat

record pass_state =
  ps_final_pass :: bool
  ps_pass_info :: gl_core_filter_chain_pass_info
  ps_current_viewport :: gl_core_viewport
  ps_current_framebuffer_size :: Size2D
  ps_framebuffer :: "framebuffer_state option"

text \<open>
  Modelled from the spec: the body of \<open>Framebuffer::set_size\<close> is missing.  It is a no-op
  if size and format are unchanged; otherwise the old image is released and a new one of
  exactly that size is allocated.  Format 0 keeps the format.  \<open>fb_allocations\<close> counts
  the allocations.
\<close>

definition Framebuffer_set_size :: "framebuffer_state \<Rightarrow> Size2D \<Rightarrow> gl_format \<Rightarrow> framebuffer_state" where
  "Framebuffer_set_size fb sz fmt =
     (let fmt' = (if fmt = GL_FORMAT_0 then fb_format fb else fmt)
      in if fb_size fb = sz \<and> fb_format fb = fmt' then fb
         else fb\<lparr>fb_size := sz, fb_format := fmt', fb_allocations := fb_allocations fb + 1\<rparr>)"

text \<open>
  Modelled from the spec: the body of \<open>Pass::get_output_size\<close> is missing.  Per axis the
  rule table gives \<open>round (source * scale)\<close> for an input-relative scale,
  \<open>round (viewport * scale)\<close> for a viewport-relative one, the literal pixel value for
  an absolute one and the viewport size for an unscaled pass.
\<close>

definition output_axis :: "gl_core_filter_chain_scale \<Rightarrow> cfloat \<Rightarrow> u32 \<Rightarrow> u32 \<Rightarrow> u32" where
  "output_axis scale_type scale source viewport =
     (case scale_type of
        GL_CORE_FILTER_CHAIN_SCALE_SOURCE \<Rightarrow> word_of_int (round (of_nat (unat source) * scale))
      | GL_CORE_FILTER_CHAIN_SCALE_VIEWPORT \<Rightarrow> word_of_int (round (of_nat (unat viewport) * scale))
      | GL_CORE_FILTER_CHAIN_SCALE_ABSOLUTE \<Rightarrow> word_of_int (round scale)
      | GL_CORE_FILTER_CHAIN_SCALE_ORIGINAL \<Rightarrow> viewport)"

definition Pass_get_output_size :: "pass_state \<Rightarrow> Size2D \<Rightarrow> Size2D \<Rightarrow> Size2D" where
  "Pass_get_output_size p original_size max_source =
     \<lparr>size_width = output_axis (scale_type_x (ps_pass_info p)) (scale_x (ps_pass_info p))
                     (size_width max_source) (rect_width (ps_current_viewport p)),
      size_height = output_axis (scale_type_y (ps_pass_info p)) (scale_y (ps_pass_info p))
                      (size_height max_source) (rect_height (ps_current_viewport p))\<rparr>"

text \<open>
  Modelled from the spec: the body of \<open>Pass::set_pass_info\<close> is missing.  It computes and
  returns the output size of the pass and builds or resizes the pass's own framebuffer to
  that size, unless the pass is the terminal pass.
\<close>

definition Pass_set_pass_info ::
  "pass_state \<Rightarrow> Size2D \<Rightarrow> Size2D \<Rightarrow> gl_core_filter_chain_pass_info \<Rightarrow> Size2D \<times> pass_state" where
  "Pass_set_pass_info p max_original max_source info =
     (let p1 = p\<lparr>ps_pass_info := info\<rparr>;
          sz = Pass_get_output_size p1 max_original max_source;
          p2 = p1\<lparr>ps_current_framebuffer_size := sz\<rparr>
      in if ps_final_pass p2 then (sz, p2)
         else (case ps_framebuffer p2 of
                 None \<Rightarrow>
                   (sz, p2\<lparr>ps_framebuffer :=
                              Some \<lparr>fb_size = sz, fb_format = rt_format info, fb_allocations = 1\<rparr>\<rparr>)
               | Some fb \<Rightarrow>
                   (sz, p2\<lparr>ps_framebuffer := Some (Framebuffer_set_size fb sz (rt_format info))\<rparr>)))"

text \<open>The first pass of the example preset, before its first frame.\<close>

definition example_pass_state :: pass_state where
  "example_pass_state =
     \<lparr>ps_final_pass = False,
      ps_pass_info = initial_pass_info,
      ps_current_viewport = example_rect,
      ps_current_framebuffer_size = \<lparr>size_width = 0, size_height = 0\<rparr>,
      ps_framebuffer = None\<rparr>"

definition example_source_info :: gl_core_filter_chain_pass_info where
  "example_source_info =
     initial_pass_info\<lparr>scale_type_x := GL_CORE_FILTER_CHAIN_SCALE_SOURCE,
                       scale_type_y := GL_CORE_FILTER_CHAIN_SCALE_SOURCE,
                       scale_x := 2, scale_y := 2, rt_format := GL_RGBA8\<rparr>"

section \<open>Properties of the mip level count\<close>

lemma unat_drop_bit_1: "unat (drop_bit 1 (sz :: u32)) = unat sz div 2"
  by (simp add: drop_bit_eq_div unat_div)

lemma num_miplevels_loop_floorlog:
  "num_miplevels_loop sz levels = levels + of_nat (floorlog 2 (unat sz))"
proof (induction sz levels rule: num_miplevels_loop.induct)
  case (1 sz levels)
  show ?case
  proof (cases "sz = 0")
    case True
    then show ?thesis
      by (subst num_miplevels_loop.simps) (simp add: floorlog_def)
  next
    case False
    then have pos: "0 < unat sz"
      by (simp add: unat_gt_0)
    have "num_miplevels_loop sz levels = num_miplevels_loop (drop_bit 1 sz) (levels + 1)"
      using False by (subst num_miplevels_loop.simps) simp
    also have "\<dots> = levels + 1 + of_nat (floorlog 2 (unat sz div 2))"
      using 1 [OF False] by (simp only: unat_drop_bit_1)
    also have "\<dots> = levels + of_nat (floorlog 2 (unat sz))"
      using pos by (simp add: compute_floorlog [of 2 "unat sz"])
    finally show ?thesis .
  qed
qed

lemma floorlog_floor_log2:
  assumes "1 \<le> n"
  shows "int (floorlog 2 n) = \<lfloor>log 2 (real n)\<rfloor> + 1"
proof -
  have "0 \<le> log 2 (real n)"
    using assms by simp
  then have "0 \<le> \<lfloor>log 2 (real n)\<rfloor>"
    by simp
  with assms show ?thesis
    by (simp add: floorlog_def)
qed

lemma floorlog_u32_bound: "floorlog 2 (unat (w :: u32)) \<le> 32"
  by (rule floorlog_leI) (use unsigned_less [of w] in simp_all)

lemma unat_num_miplevels: "unat (num_miplevels width height) = floorlog 2 (unat (max width height))"
proof -
  have "floorlog 2 (unat (max width height)) < 2 ^ 32"
    using floorlog_u32_bound [of "max width height"] by simp
  then show ?thesis
    by (simp add: num_miplevels_def num_miplevels_loop_floorlog unat_of_nat)
qed

text \<open>
  Claim C4, as the code has it.  For dimensions \<open>w \<ge> 1\<close> and \<open>h \<ge> 1\<close> a static
  texture is allocated with \<open>\<lfloor>log\<^sub>2 (max w h)\<rfloor> + 1\<close> mip levels when mipmaps are
  requested and with exactly one level otherwise: the loop counts the binary digits of
  the larger dimension, so the logarithm is rounded down, not up.
\<close>

theorem lut_levels_floor_log2:
  assumes "1 \<le> unat w" and "1 \<le> unat h"
  shows "int (unat (lut_levels mipmap w h)) =
    (if mipmap then \<lfloor>log 2 (real (unat (max w h)))\<rfloor> + 1 else 1)"
proof -
  have "1 \<le> unat (max w h)"
    using assms by (simp add: max_def)
  then have "int (floorlog 2 (unat (max w h))) = \<lfloor>log 2 (real (unat (max w h)))\<rfloor> + 1"
    by (rule floorlog_floor_log2)
  then have "int (unat (num_miplevels w h)) = \<lfloor>log 2 (real (unat (max w h)))\<rfloor> + 1"
    by (simp only: unat_num_miplevels)
  then show ?thesis
    by (cases mipmap) (simp_all only: lut_levels_def if_True if_False, simp)
qed

theorem lut_levels_floor_log2_witness:
  "1 \<le> unat (3 :: u32) \<and> 1 \<le> unat (1 :: u32) \<and>
   int (unat (lut_levels True 3 1)) = \<lfloor>log 2 (real (unat (max (3 :: u32) 1)))\<rfloor> + 1"
  using lut_levels_floor_log2 [of 3 1 True] by simp

text \<open>
  Claim C4, as stated, asks for \<open>\<lceil>log\<^sub>2 (max w h)\<rceil> + 1\<close> levels.  A 3 by 1 image
  with mipmaps gets two levels from the code, while the rounded-up logarithm of 3 is 2
  and the stated count would be three.
\<close>

theorem lut_levels_ceil_counterexample:
  "unat (lut_levels True 3 1) = 2 \<and>
   int (unat (lut_levels True 3 1)) \<noteq> \<lceil>log 2 (real (unat (max (3 :: u32) 1)))\<rceil> + 1"
proof -
  have lv: "unat (lut_levels True 3 1) = 2"
  proof -
    have "floorlog 2 3 = 2"
      by code_simp
    then show ?thesis
      by (simp add: lut_levels_def unat_num_miplevels)
  qed
  have "ceillog2 3 = 2"
    by (rule ceillog2_eqI) simp_all
  then have "\<lceil>log 2 (real 3)\<rceil> = 2"
    by (simp add: ceillog2_def)
  then have "\<lceil>log 2 (real (unat (max (3 :: u32) 1)))\<rceil> + 1 = 3"
    by simp
  with lv show ?thesis
    by simp
qed

section \<open>Properties of the unsigned to float conversion\<close>

lemma floorlog2_eq:
  assumes "2 ^ (w - 1) \<le> x" and "x < 2 ^ w"
  shows "floorlog 2 x = w"
proof (rule le_antisym)
  show "floorlog 2 x \<le> w"
    using assms(2) by (intro floorlog_leI) simp_all
  show "w \<le> floorlog 2 x"
    using assms(1) by (intro floorlog_geI) simp_all
qed

lemma float_of_u32_exact:
  assumes "unat w < 2 ^ 24"
  shows "float_of_u32 w = of_nat (unat w)"
proof -
  have "floorlog 2 (unat w) \<le> 24"
    using assms by (intro floorlog_leI) simp_all
  then have "floorlog 2 (unat w) - 24 = 0"
    by simp
  then show ?thesis
    by (simp add: float_of_u32_def Let_def)
qed

lemma float_of_u32_rounds:
  "float_of_u32 16777217 = 16777216"
  "float_of_u32 16777219 = 16777220"
  "float_of_u32 4294967295 = 4294967296"
proof -
  have "floorlog 2 16777217 = 25" "floorlog 2 16777219 = 25" "floorlog 2 4294967295 = 32"
    by (rule floorlog2_eq; simp)+
  then show "float_of_u32 16777217 = 16777216"
    "float_of_u32 16777219 = 16777220"
    "float_of_u32 4294967295 = 4294967296"
    by (simp_all add: float_of_u32_def Let_def)
qed

section \<open>Properties of the parameter loop\<close>

lemma find_parameter_None: "find_parameter ident ps = None \<longleftrightarrow> ident \<notin> sp_id ` set ps"
  by (induction ps) (auto split: option.splits)

lemma find_parameter_Some:
  "find_parameter ident ps = Some j \<Longrightarrow> j < length ps \<and> sp_id (ps ! j) = ident"
proof (induction ps arbitrary: j)
  case Nil
  then show ?case by simp
next
  case (Cons p ps)
  then show ?case
    by (auto split: if_splits option.splits)
qed

lemma first_declaration_append:
  "first_declaration ident (xs @ ys) =
     (case first_declaration ident xs of None \<Rightarrow> first_declaration ident ys | Some d \<Rightarrow> Some d)"
  by (induction xs) (auto simp: first_declaration_def)

lemma first_declaration_None: "first_declaration ident ds = None \<longleftrightarrow> ident \<notin> mp_id ` set ds"
  by (induction ds) (auto simp: first_declaration_def)

lemma first_declaration_Some:
  "first_declaration ident ds = Some d \<Longrightarrow> d \<in> set ds \<and> mp_id d = ident"
  by (induction ds) (auto simp: first_declaration_def split: if_splits)

lemma strlcpy_fits: "length s < n \<Longrightarrow> strlcpy s n = s"
  by (simp add: strlcpy_def)

lemma store_parameter_fits:
  "declaration_fits k d \<Longrightarrow> sp_id (store_parameter k d) = mp_id d \<and> sp_desc (store_parameter k d) = mp_desc d"
  by (simp add: declaration_fits_def store_parameter_def strlcpy_fits)

lemma parameter_differs_store:
  "declaration_fits k d0 \<Longrightarrow> parameter_differs d (store_parameter k d0) \<longleftrightarrow> \<not> same_declaration d d0"
  by (auto simp: parameter_differs_def same_declaration_def declaration_fits_def store_parameter_def strlcpy_fits)

lemma duplicates_match_iff:
  "duplicates_match ds \<longleftrightarrow>
     (\<forall>j < length ds. \<forall>d0. first_declaration (mp_id (ds ! j)) (take j ds) = Some d0 \<longrightarrow>
        same_declaration (ds ! j) d0)"
  by (auto simp: duplicates_match_def list_all_iff split: option.splits)

lemma duplicates_match_appendD: "duplicates_match (xs @ ys) \<Longrightarrow> duplicates_match xs"
  unfolding duplicates_match_iff
proof (intro allI impI)
  fix j d0
  assume all: "\<forall>j < length (xs @ ys). \<forall>d0.
      first_declaration (mp_id ((xs @ ys) ! j)) (take j (xs @ ys)) = Some d0 \<longrightarrow>
      same_declaration ((xs @ ys) ! j) d0"
    and j: "j < length xs"
    and f: "first_declaration (mp_id (xs ! j)) (take j xs) = Some d0"
  have "(xs @ ys) ! j = xs ! j" "take j (xs @ ys) = take j xs"
    using j by (simp_all add: nth_append)
  then show "same_declaration (xs ! j) d0"
    using all j f by (metis length_append trans_less_add1)
qed

lemma first_declaration_single:
  "first_declaration ident [d] = (if mp_id d = ident then Some d else None)"
  by (simp add: first_declaration_def)

lemma duplicates_match_snoc:
  assumes "duplicates_match seen"
  shows "duplicates_match (seen @ [d]) \<longleftrightarrow>
    (case first_declaration (mp_id d) seen of None \<Rightarrow> True | Some d0 \<Rightarrow> same_declaration d d0)"
proof -
  have early: "(seen @ [d]) ! j = seen ! j \<and> take j (seen @ [d]) = take j seen"
    if "j < length seen" for j
    using that by (simp add: nth_append)
  have last: "(seen @ [d]) ! length seen = d \<and> take (length seen) (seen @ [d]) = seen"
    by simp
  have "duplicates_match (seen @ [d]) \<longleftrightarrow>
      (\<forall>j < length seen. \<forall>d0. first_declaration (mp_id (seen ! j)) (take j seen) = Some d0 \<longrightarrow>
          same_declaration (seen ! j) d0) \<and>
      (\<forall>d0. first_declaration (mp_id d) seen = Some d0 \<longrightarrow> same_declaration d d0)"
    unfolding duplicates_match_iff using early last
    by (auto simp: less_Suc_eq)
  then have "duplicates_match (seen @ [d]) \<longleftrightarrow>
      (\<forall>d0. first_declaration (mp_id d) seen = Some d0 \<longrightarrow> same_declaration d d0)"
    using assms by (simp add: duplicates_match_iff)
  then show ?thesis
    by (auto split: option.splits)
qed

lemma first_declaration_before:
  assumes "j < length ds"
    and "first_declaration (mp_id (ds ! j)) ds = Some d0"
    and "ds ! j \<noteq> d0"
  shows "first_declaration (mp_id (ds ! j)) (take j ds) = Some d0"
proof -
  have split: "ds = take j ds @ ds ! j # drop (Suc j) ds"
    using assms(1) by (simp add: id_take_nth_drop)
  have "first_declaration (mp_id (ds ! j)) (take j ds @ ds ! j # drop (Suc j) ds) = Some d0"
    using assms(2) split by simp
  then show ?thesis
    using assms(3)
    by (cases "first_declaration (mp_id (ds ! j)) (take j ds)")
      (simp_all add: first_declaration_append, simp add: first_declaration_def)
qed

lemma duplicates_conflict:
  assumes "d \<in> set ds"
    and "first_declaration (mp_id d) ds = Some d0"
    and "d \<noteq> d0"
    and "\<not> same_declaration d d0"
  shows "\<not> duplicates_match ds"
proof -
  obtain j where j: "j < length ds" "ds ! j = d"
    using assms(1) by (auto simp: in_set_conv_nth)
  have "first_declaration (mp_id (ds ! j)) (take j ds) = Some d0"
    using first_declaration_before [OF j(1)] assms(2,3) j(2) by simp
  then show ?thesis
    using j assms(4) by (auto simp: duplicates_match_iff)
qed

lemma table_has_room_from_Nil: "table_has_room_from k seen []"
  by (simp add: table_has_room_from_def)

lemma table_has_room_from_iff:
  "table_has_room_from k seen ds \<longleftrightarrow>
     (\<forall>j < length ds. card (mp_id ` set (seen @ take j ds)) < GFX_MAX_PARAMETERS k)"
  by (auto simp: table_has_room_from_def list_all_iff)

lemma table_has_room_from_Cons:
  "table_has_room_from k seen (d # ds) \<longleftrightarrow>
     card (mp_id ` set seen) < GFX_MAX_PARAMETERS k \<and> table_has_room_from k (seen @ [d]) ds"
proof -
  let ?P = "\<lambda>j. card (mp_id ` set (seen @ take j (d # ds))) < GFX_MAX_PARAMETERS k"
  have "table_has_room_from k seen (d # ds) \<longleftrightarrow> (\<forall>j < Suc (length ds). ?P j)"
    by (simp only: table_has_room_from_iff length_Cons)
  also have "\<dots> \<longleftrightarrow> ?P 0 \<and> (\<forall>j < length ds. ?P (Suc j))"
    by (rule All_less_Suc2)
  also have "\<dots> \<longleftrightarrow> card (mp_id ` set seen) < GFX_MAX_PARAMETERS k \<and>
      (\<forall>j < length ds. card (mp_id ` set ((seen @ [d]) @ take j ds)) < GFX_MAX_PARAMETERS k)"
    by simp
  finally show ?thesis
    by (simp only: table_has_room_from_iff)
qed

lemma table_has_room_from_append:
  "table_has_room_from k seen (xs @ ys) \<longleftrightarrow>
     table_has_room_from k seen xs \<and> table_has_room_from k (seen @ xs) ys"
proof (induction xs arbitrary: seen)
  case Nil
  show ?case
    by (simp add: table_has_room_from_Nil)
next
  case (Cons x xs)
  show ?case
    using Cons [of "seen @ [x]"] by (auto simp: table_has_room_from_Cons)
qed

lemma parameter_table_has_room_from:
  "parameter_table_has_room k ds = table_has_room_from k [] ds"
  by (simp add: parameter_table_has_room_def table_has_room_from_def)

lemma stored_first_length:
  assumes "stored_first k seen params"
  shows "length params = card (mp_id ` set seen)"
proof -
  have "sp_id ` set params = mp_id ` set seen"
  proof
    show "sp_id ` set params \<subseteq> mp_id ` set seen"
    proof
      fix x assume "x \<in> sp_id ` set params"
      then obtain p where p: "p \<in> set params" "x = sp_id p" by auto
      then obtain d where "first_declaration (sp_id p) seen = Some d"
        using assms by (auto simp: stored_first_def)
      then have "d \<in> set seen \<and> mp_id d = sp_id p"
        by (rule first_declaration_Some)
      then show "x \<in> mp_id ` set seen"
        using p by (metis imageI)
    qed
    show "mp_id ` set seen \<subseteq> sp_id ` set params"
      using assms by (auto simp: stored_first_def)
  qed
  moreover have "card (sp_id ` set params) = length params"
    using assms by (metis stored_first_def distinct_card length_map set_map)
  ultimately show ?thesis by simp
qed

lemma stored_first_found:
  assumes inv: "stored_first k seen params"
    and f: "find_parameter ident params = Some j"
  shows "\<exists>d0. first_declaration ident seen = Some d0 \<and> params ! j = store_parameter k d0"
proof -
  from f have j: "j < length params" "sp_id (params ! j) = ident"
    using find_parameter_Some by blast+
  then have "params ! j \<in> set params" by simp
  then show ?thesis
    using inv j by (auto simp: stored_first_def)
qed

lemma stored_first_new:
  assumes inv: "stored_first k seen params"
    and f: "find_parameter (mp_id d) params = None"
    and fit: "declaration_fits k d"
  shows "stored_first k (seen @ [d]) (params @ [store_parameter k d])"
    and "first_declaration (mp_id d) seen = None"
proof -
  from f have notin: "mp_id d \<notin> sp_id ` set params"
    by (simp add: find_parameter_None)
  then show none: "first_declaration (mp_id d) seen = None"
    using inv by (auto simp: stored_first_def first_declaration_None)
  have sid: "sp_id (store_parameter k d) = mp_id d"
    using fit by (simp add: store_parameter_fits)
  show "stored_first k (seen @ [d]) (params @ [store_parameter k d])"
    unfolding stored_first_def
  proof (intro conjI ballI)
    show "distinct (map sp_id (params @ [store_parameter k d]))"
      using inv notin sid by (auto simp: stored_first_def)
  next
    fix p assume "p \<in> set (params @ [store_parameter k d])"
    then consider "p \<in> set params" | "p = store_parameter k d" by auto
    then show "\<exists>d'. first_declaration (sp_id p) (seen @ [d]) = Some d' \<and> p = store_parameter k d'"
    proof cases
      case 1
      then obtain d' where "first_declaration (sp_id p) seen = Some d'" "p = store_parameter k d'"
        using inv by (auto simp: stored_first_def)
      then show ?thesis
        by (simp add: first_declaration_append)
    next
      case 2
      then show ?thesis
        using none sid by (simp add: first_declaration_append first_declaration_single)
    qed
  next
    fix d' assume "d' \<in> set (seen @ [d])"
    then show "mp_id d' \<in> sp_id ` set (params @ [store_parameter k d])"
      using inv sid by (auto simp: stored_first_def)
  qed
qed

lemma stored_first_dup:
  assumes inv: "stored_first k seen params"
    and f: "find_parameter (mp_id d) params = Some j"
  shows "stored_first k (seen @ [d]) params"
proof -
  obtain d0 where d0: "first_declaration (mp_id d) seen = Some d0"
    using stored_first_found [OF inv f] by blast
  have "mp_id d \<in> sp_id ` set params"
    using f by (metis find_parameter_None option.distinct(1))
  then show ?thesis
    using inv by (auto simp: stored_first_def first_declaration_append split: option.splits)
qed

lemma duplicates_match_Nil: "duplicates_match []"
  by (simp add: duplicates_match_def)

lemma stored_first_Nil: "stored_first k [] []"
  by (simp add: stored_first_def)

lemma card_ids_append_le:
  "card (mp_id ` set xs) \<le> card (mp_id ` set (xs @ ys))"
  by (rule card_mono) auto

lemma add_parameters_scan:
  assumes "stored_first k seen params"
    and "duplicates_match seen"
    and "\<forall>d \<in> set (seen @ ds). declaration_fits k d"
  shows "case add_parameters k i ds (params, chain) of
      Inl e \<Rightarrow>
        (e = DuplicateParameterMismatch \<and> \<not> duplicates_match (seen @ ds)) \<or>
        (e = ExceededMaximumParameters \<and> GFX_MAX_PARAMETERS k \<le> card (mp_id ` set (seen @ ds)))
    | Inr (params', chain') \<Rightarrow>
        stored_first k (seen @ ds) params' \<and> duplicates_match (seen @ ds) \<and>
        (length params \<le> GFX_MAX_PARAMETERS k \<longrightarrow> length params' \<le> GFX_MAX_PARAMETERS k)"
  using assms
proof (induction ds arbitrary: seen params chain)
  case Nil
  then show ?case by simp
next
  case (Cons d ds)
  have fit_d: "declaration_fits k d"
    using Cons.prems(3) by simp
  have fits': "\<forall>x \<in> set ((seen @ [d]) @ ds). declaration_fits k x"
    using Cons.prems(3) by simp
  have len: "length params = card (mp_id ` set seen)"
    using Cons.prems(1) by (rule stored_first_length)
  show ?case
  proof (cases "GFX_MAX_PARAMETERS k \<le> length params")
    case True
    have "card (mp_id ` set seen) \<le> card (mp_id ` set (seen @ d # ds))"
      by (rule card_ids_append_le)
    then show ?thesis
      using True len by simp
  next
    case cap: False
    show ?thesis
    proof (cases "find_parameter (mp_id d) params")
      case None
      have inv': "stored_first k (seen @ [d]) (params @ [store_parameter k d])"
        and none: "first_declaration (mp_id d) seen = None"
        using stored_first_new [OF Cons.prems(1) None fit_d] by simp_all
      have dm': "duplicates_match (seen @ [d])"
        using duplicates_match_snoc [OF Cons.prems(2), of d] none by simp
      have step: "add_parameters k i (d # ds) (params, chain) =
          add_parameters k i ds (params @ [store_parameter k d],
            add_parameter chain i (length params) (mp_id d))"
        using cap None by simp
      show ?thesis
        using Cons.IH [OF inv' dm' fits', of "add_parameter chain i (length params) (mp_id d)"] cap
        unfolding step by (auto split: sum.splits)
    next
      case (Some j)
      obtain d0 where d0: "first_declaration (mp_id d) seen = Some d0"
        and pj: "params ! j = store_parameter k d0"
        using stored_first_found [OF Cons.prems(1) Some] by blast
      have "d0 \<in> set seen"
        using first_declaration_Some [OF d0] by simp
      then have fit0: "declaration_fits k d0"
        using Cons.prems(3) by simp
      have differs: "parameter_differs d (params ! j) \<longleftrightarrow> \<not> same_declaration d d0"
        using pj parameter_differs_store [OF fit0] by simp
      have snoc: "duplicates_match (seen @ [d]) \<longleftrightarrow> same_declaration d d0"
        using duplicates_match_snoc [OF Cons.prems(2), of d] d0 by simp
      show ?thesis
      proof (cases "same_declaration d d0")
        case False
        then have "\<not> duplicates_match ((seen @ [d]) @ ds)"
          using snoc duplicates_match_appendD by blast
        then show ?thesis
          using cap Some differs False by simp
      next
        case True
        have inv': "stored_first k (seen @ [d]) params"
          using stored_first_dup [OF Cons.prems(1) Some] .
        have dm': "duplicates_match (seen @ [d])"
          using snoc True by simp
        have step: "add_parameters k i (d # ds) (params, chain) =
            add_parameters k i ds (params, add_parameter chain i j (mp_id d))"
          using cap Some differs True by simp
        show ?thesis
          using Cons.IH [OF inv' dm' fits', of "add_parameter chain i j (mp_id d)"]
          unfolding step by (auto split: sum.splits)
      qed
    qed
  qed
qed

lemma not_duplicates_match_append: "\<not> duplicates_match xs \<Longrightarrow> \<not> duplicates_match (xs @ ys)"
  using duplicates_match_appendD by blast

lemma load_pass_scan:
  assumes "stored_first k seen params"
    and "duplicates_match seen"
    and "\<forall>d \<in> set (seen @ pass_declarations ext (ps ! i)). declaration_fits k d"
  shows "case load_pass k ext flt ps i (params, chain) of
      Inl e \<Rightarrow>
        (e = CompileShaderFailed \<and> glslang_compile_shader ext (source_path (ps ! i)) = None) \<or>
        (e = DuplicateParameterMismatch \<and> \<not> duplicates_match (seen @ pass_declarations ext (ps ! i))) \<or>
        (e = ExceededMaximumParameters \<and>
          GFX_MAX_PARAMETERS k \<le> card (mp_id ` set (seen @ pass_declarations ext (ps ! i))))
    | Inr (params', chain') \<Rightarrow>
        glslang_compile_shader ext (source_path (ps ! i)) \<noteq> None \<and>
        stored_first k (seen @ pass_declarations ext (ps ! i)) params' \<and>
        duplicates_match (seen @ pass_declarations ext (ps ! i)) \<and>
        (length params \<le> GFX_MAX_PARAMETERS k \<longrightarrow> length params' \<le> GFX_MAX_PARAMETERS k)"
proof (cases "glslang_compile_shader ext (source_path (ps ! i))")
  case None
  then show ?thesis
    by (simp add: load_pass_def)
next
  case (Some out)
  then have D: "pass_declarations ext (ps ! i) = meta_parameters out"
    by (simp add: pass_declarations_def)
  show ?thesis
    using add_parameters_scan [OF assms(1,2), of "meta_parameters out" i chain] assms(3) Some
    unfolding D
    by (auto simp: load_pass_def Let_def split: sum.splits)
qed

lemma load_passes_scan:
  assumes "stored_first k seen params"
    and "duplicates_match seen"
    and "\<forall>d \<in> set (seen @ concat (map (\<lambda>i. pass_declarations ext (ps ! i)) js)). declaration_fits k d"
  shows "case load_passes k ext flt ps js (params, chain) of
      Inl e \<Rightarrow>
        (e = CompileShaderFailed \<and> (\<exists>i \<in> set js. glslang_compile_shader ext (source_path (ps ! i)) = None)) \<or>
        (e = DuplicateParameterMismatch \<and>
          \<not> duplicates_match (seen @ concat (map (\<lambda>i. pass_declarations ext (ps ! i)) js))) \<or>
        (e = ExceededMaximumParameters \<and>
          GFX_MAX_PARAMETERS k \<le> card (mp_id ` set (seen @ concat (map (\<lambda>i. pass_declarations ext (ps ! i)) js))))
    | Inr (params', chain') \<Rightarrow>
        (\<forall>i \<in> set js. glslang_compile_shader ext (source_path (ps ! i)) \<noteq> None) \<and>
        stored_first k (seen @ concat (map (\<lambda>i. pass_declarations ext (ps ! i)) js)) params' \<and>
        duplicates_match (seen @ concat (map (\<lambda>i. pass_declarations ext (ps ! i)) js)) \<and>
        (length params \<le> GFX_MAX_PARAMETERS k \<longrightarrow> length params' \<le> GFX_MAX_PARAMETERS k)"
  using assms
proof (induction js arbitrary: seen params chain)
  case Nil
  then show ?case by simp
next
  case (Cons j js)
  let ?D = "pass_declarations ext (ps ! j)"
  let ?R = "concat (map (\<lambda>i. pass_declarations ext (ps ! i)) js)"
  have fits1: "\<forall>d \<in> set (seen @ ?D). declaration_fits k d"
    using Cons.prems(3) by auto
  have fits2: "\<forall>d \<in> set ((seen @ ?D) @ ?R). declaration_fits k d"
    using Cons.prems(3) by simp
  have app: "seen @ concat (map (\<lambda>i. pass_declarations ext (ps ! i)) (j # js)) = (seen @ ?D) @ ?R"
    by simp
  note head = load_pass_scan [OF Cons.prems(1,2) fits1, of flt chain]
  show ?case
  proof (cases "load_pass k ext flt ps j (params, chain)")
    case (Inl e)
    have "\<not> duplicates_match (seen @ ?D) \<Longrightarrow> \<not> duplicates_match ((seen @ ?D) @ ?R)"
      by (rule not_duplicates_match_append)
    moreover have "card (mp_id ` set (seen @ ?D)) \<le> card (mp_id ` set ((seen @ ?D) @ ?R))"
      by (rule card_ids_append_le)
    ultimately show ?thesis
      using head Inl unfolding app by (auto simp del: append_assoc)
  next
    case (Inr st)
    obtain params1 chain1 where st: "st = (params1, chain1)"
      by (cases st)
    have h: "glslang_compile_shader ext (source_path (ps ! j)) \<noteq> None"
      "stored_first k (seen @ ?D) params1" "duplicates_match (seen @ ?D)"
      "length params \<le> GFX_MAX_PARAMETERS k \<longrightarrow> length params1 \<le> GFX_MAX_PARAMETERS k"
      using head Inr st by simp_all
    have step: "load_passes k ext flt ps (j # js) (params, chain) = load_passes k ext flt ps js (params1, chain1)"
      using Inr st by simp
    show ?thesis
      using Cons.IH [OF h(2,3) fits2, of chain1] h(1,4)
      unfolding step app by (auto simp del: append_assoc split: sum.splits)
  qed
qed

lemma add_parameters_room:
  assumes "stored_first k seen params"
    and "\<forall>d \<in> set (seen @ ds). declaration_fits k d"
  shows "case add_parameters k i ds (params, chain) of
      Inl e \<Rightarrow> e = ExceededMaximumParameters \<longrightarrow> \<not> table_has_room_from k seen ds
    | Inr st \<Rightarrow> table_has_room_from k seen ds"
  using assms
proof (induction ds arbitrary: seen params chain)
  case Nil
  then show ?case
    by (simp add: table_has_room_from_Nil)
next
  case (Cons d ds)
  have fit_d: "declaration_fits k d"
    using Cons.prems(2) by simp
  have fits': "\<forall>x \<in> set ((seen @ [d]) @ ds). declaration_fits k x"
    using Cons.prems(2) by simp
  have len: "length params = card (mp_id ` set seen)"
    using Cons.prems(1) by (rule stored_first_length)
  show ?case
  proof (cases "GFX_MAX_PARAMETERS k \<le> length params")
    case True
    then have "\<not> table_has_room_from k seen (d # ds)"
      using len by (simp add: table_has_room_from_Cons)
    then show ?thesis
      using True by simp
  next
    case cap: False
    then have room: "table_has_room_from k seen (d # ds) \<longleftrightarrow> table_has_room_from k (seen @ [d]) ds"
      using len by (simp add: table_has_room_from_Cons)
    show ?thesis
    proof (cases "find_parameter (mp_id d) params")
      case None
      have inv': "stored_first k (seen @ [d]) (params @ [store_parameter k d])"
        using stored_first_new(1) [OF Cons.prems(1) None fit_d] .
      have step: "add_parameters k i (d # ds) (params, chain) =
          add_parameters k i ds (params @ [store_parameter k d],
            add_parameter chain i (length params) (mp_id d))"
        using cap None by simp
      show ?thesis
        using Cons.IH [OF inv' fits', of "add_parameter chain i (length params) (mp_id d)"]
        unfolding step room by simp
    next
      case (Some j)
      show ?thesis
      proof (cases "parameter_differs d (params ! j)")
        case True
        then show ?thesis
          using cap Some by simp
      next
        case False
        have inv': "stored_first k (seen @ [d]) params"
          using stored_first_dup [OF Cons.prems(1) Some] .
        have step: "add_parameters k i (d # ds) (params, chain) =
            add_parameters k i ds (params, add_parameter chain i j (mp_id d))"
          using cap Some False by simp
        show ?thesis
          using Cons.IH [OF inv' fits', of "add_parameter chain i j (mp_id d)"]
          unfolding step room by simp
      qed
    qed
  qed
qed

lemma load_pass_room:
  assumes "stored_first k seen params"
    and "\<forall>d \<in> set (seen @ pass_declarations ext (ps ! i)). declaration_fits k d"
  shows "case load_pass k ext flt ps i (params, chain) of
      Inl e \<Rightarrow> e = ExceededMaximumParameters \<longrightarrow>
        \<not> table_has_room_from k seen (pass_declarations ext (ps ! i))
    | Inr st \<Rightarrow> table_has_room_from k seen (pass_declarations ext (ps ! i))"
proof (cases "glslang_compile_shader ext (source_path (ps ! i))")
  case None
  then show ?thesis
    by (simp add: load_pass_def)
next
  case (Some out)
  then have D: "pass_declarations ext (ps ! i) = meta_parameters out"
    by (simp add: pass_declarations_def)
  show ?thesis
    using add_parameters_room [OF assms(1), of "meta_parameters out" i chain] assms(2) Some
    unfolding D
    by (auto simp: load_pass_def Let_def split: sum.splits)
qed

lemma load_passes_room:
  assumes "stored_first k seen params"
    and "duplicates_match seen"
    and "\<forall>d \<in> set (seen @ concat (map (\<lambda>i. pass_declarations ext (ps ! i)) js)). declaration_fits k d"
  shows "case load_passes k ext flt ps js (params, chain) of
      Inl e \<Rightarrow> e = ExceededMaximumParameters \<longrightarrow>
        \<not> table_has_room_from k seen (concat (map (\<lambda>i. pass_declarations ext (ps ! i)) js))
    | Inr st \<Rightarrow> table_has_room_from k seen (concat (map (\<lambda>i. pass_declarations ext (ps ! i)) js))"
  using assms
proof (induction js arbitrary: seen params chain)
  case Nil
  then show ?case
    by (simp add: table_has_room_from_Nil)
next
  case (Cons j js)
  let ?D = "pass_declarations ext (ps ! j)"
  let ?R = "concat (map (\<lambda>i. pass_declarations ext (ps ! i)) js)"
  have fits1: "\<forall>d \<in> set (seen @ ?D). declaration_fits k d"
    using Cons.prems(3) by auto
  have fits2: "\<forall>d \<in> set ((seen @ ?D) @ ?R). declaration_fits k d"
    using Cons.prems(3) by simp
  have app: "table_has_room_from k seen (concat (map (\<lambda>i. pass_declarations ext (ps ! i)) (j # js)))
      \<longleftrightarrow> table_has_room_from k seen ?D \<and> table_has_room_from k (seen @ ?D) ?R"
    by (simp add: table_has_room_from_append)
  note head = load_pass_room [OF Cons.prems(1) fits1, of flt chain]
  note inv = load_pass_scan [OF Cons.prems(1,2) fits1, of flt chain]
  show ?case
  proof (cases "load_pass k ext flt ps j (params, chain)")
    case (Inl e)
    then show ?thesis
      using head unfolding app by simp
  next
    case (Inr st)
    obtain params1 chain1 where st: "st = (params1, chain1)"
      by (cases st)
    have h: "stored_first k (seen @ ?D) params1" "duplicates_match (seen @ ?D)"
      using inv Inr st by simp_all
    have room1: "table_has_room_from k seen ?D"
      using head Inr by simp
    have step: "load_passes k ext flt ps (j # js) (params, chain) = load_passes k ext flt ps js (params1, chain1)"
      using Inr st by simp
    show ?thesis
      using Cons.IH [OF h fits2, of chain1] room1
      unfolding step app by (auto split: sum.splits)
  qed
qed

lemma declared_parameters_nth:
  "concat (map (\<lambda>i. pass_declarations ext (ps ! i)) [0..<length ps]) = declared_parameters ext ps"
proof -
  have "map (\<lambda>i. pass_declarations ext (ps ! i)) [0..<length ps] = map (pass_declarations ext) (map ((!) ps) [0..<length ps])"
    by simp
  then show ?thesis
    by (simp only: map_nth declared_parameters_def)
qed

section \<open>Properties of the loader\<close>

lemma load_luts_None_iff:
  "gl_core_filter_chain_load_luts ext chain ls = None \<longleftrightarrow>
     (\<exists>l \<in> set ls. image_texture_load ext (lut_path l) = None)"
proof (induction ls arbitrary: chain)
  case Nil
  then show ?case by simp
next
  case (Cons l ls)
  show ?case
  proof (cases "image_texture_load ext (lut_path l)")
    case None
    then show ?thesis
      by (simp add: gl_core_filter_chain_load_lut_def)
  next
    case (Some wh)
    then show ?thesis
      using Cons.IH by (cases wh) (simp add: gl_core_filter_chain_load_lut_def Let_def)
  qed
qed

lemma preset_of_Some:
  "preset_of ext path = Some shader \<Longrightarrow>
     \<exists>shader0. video_shader_read_conf_cgp ext path = Some shader0 \<and>
       shader = video_shader_resolve_relative ext shader0 path"
  by (auto simp: preset_of_def split: option.splits)

lemma create_from_preset_unfold:
  assumes "config_file_new ext path"
    and "preset_of ext path = Some shader"
    and "pass shader \<noteq> []"
    and "gl_core_filter_chain_load_luts ext new_gl_core_filter_chain (lut shader) = Some chain1"
  shows "gl_core_filter_chain_create_from_preset k ext path flt =
     (case load_passes k ext flt (pass shader) [0..<length (pass shader)] ([], chain1) of
        Inl e \<Rightarrow> Inl e
      | Inr (params, chain2) \<Rightarrow>
          (let chain3 = (if fbo_valid (fbo (pass shader ! (length (pass shader) - 1)))
                 then append_viewport_pass k flt (length (pass shader)) chain2 else chain2)
           in case video_shader_resolve_current_parameters ext path (shader\<lparr>parameters := params\<rparr>) of
                None \<Rightarrow> Inl ResolveCurrentParametersFailed
              | Some shader' \<Rightarrow>
                  (let chain4 = set_shader_preset chain3 shader'
                   in if \<not> chain_init ext chain4 then Inl ChainInitFailed else Inr chain4)))"
proof -
  obtain shader0 where rc: "video_shader_read_conf_cgp ext path = Some shader0"
    and sh: "video_shader_resolve_relative ext shader0 path = shader"
    using preset_of_Some [OF assms(2)] by auto
  have luts: "(if lut shader \<noteq> [] then gl_core_filter_chain_load_luts ext new_gl_core_filter_chain (lut shader)
      else Some new_gl_core_filter_chain) = Some chain1"
    using assms(4) by (cases "lut shader") simp_all
  show ?thesis
    unfolding gl_core_filter_chain_create_from_preset_def
    by (simp only: assms(1) rc sh assms(3) luts Let_def option.case not_True_eq_False if_False)
qed


lemma preset_declarations_Some:
  "preset_of ext path = Some shader \<Longrightarrow> preset_declarations ext path = declared_parameters ext (pass shader)"
  by (simp add: preset_declarations_def)

lemma load_passes_preset:
  assumes "preset_of ext path = Some shader"
    and "\<forall>d \<in> set (preset_declarations ext path). declaration_fits k d"
  shows "case load_passes k ext flt (pass shader) [0..<length (pass shader)] ([], chain) of
      Inl e \<Rightarrow>
        (e = CompileShaderFailed \<and> (\<exists>p \<in> set (pass shader). glslang_compile_shader ext (source_path p) = None)) \<or>
        (e = DuplicateParameterMismatch \<and> \<not> duplicates_match (preset_declarations ext path)) \<or>
        (e = ExceededMaximumParameters \<and>
          GFX_MAX_PARAMETERS k \<le> card (mp_id ` set (preset_declarations ext path)))
    | Inr (params', chain') \<Rightarrow>
        (\<forall>p \<in> set (pass shader). glslang_compile_shader ext (source_path p) \<noteq> None) \<and>
        stored_first k (preset_declarations ext path) params' \<and>
        duplicates_match (preset_declarations ext path) \<and>
        length params' \<le> GFX_MAX_PARAMETERS k"
proof -
  let ?ps = "pass shader"
  have D: "concat (map (\<lambda>i. pass_declarations ext (?ps ! i)) [0..<length ?ps]) = preset_declarations ext path"
    using assms(1) by (simp add: declared_parameters_nth preset_declarations_Some)
  have fits: "\<forall>d \<in> set ([] @ concat (map (\<lambda>i. pass_declarations ext (?ps ! i)) [0..<length ?ps])). declaration_fits k d"
    using assms(2) D by simp
  note scan = load_passes_scan [OF stored_first_Nil duplicates_match_Nil fits, of flt chain]
  show ?thesis
  proof (cases "load_passes k ext flt ?ps [0..<length ?ps] ([], chain)")
    case (Inl e)
    then have "(e = CompileShaderFailed \<and>
          (\<exists>i \<in> set [0..<length ?ps]. glslang_compile_shader ext (source_path (?ps ! i)) = None)) \<or>
        (e = DuplicateParameterMismatch \<and> \<not> duplicates_match (preset_declarations ext path)) \<or>
        (e = ExceededMaximumParameters \<and>
          GFX_MAX_PARAMETERS k \<le> card (mp_id ` set (preset_declarations ext path)))"
      using scan by (simp add: D)
    moreover have "\<exists>p \<in> set ?ps. glslang_compile_shader ext (source_path p) = None"
      if "\<exists>i \<in> set [0..<length ?ps]. glslang_compile_shader ext (source_path (?ps ! i)) = None"
      using that by (auto intro: nth_mem)
    ultimately show ?thesis
      using Inl by auto
  next
    case (Inr st)
    obtain params' chain' where st: "st = (params', chain')"
      by (cases st)
    have h: "\<forall>i \<in> set [0..<length ?ps]. glslang_compile_shader ext (source_path (?ps ! i)) \<noteq> None"
      "stored_first k (preset_declarations ext path) params'"
      "duplicates_match (preset_declarations ext path)"
      "length params' \<le> GFX_MAX_PARAMETERS k"
      using scan Inr st by (simp_all add: D)
    have "\<forall>p \<in> set ?ps. glslang_compile_shader ext (source_path p) \<noteq> None"
    proof
      fix p assume "p \<in> set ?ps"
      then obtain i where "i < length ?ps" "p = ?ps ! i"
        by (auto simp: in_set_conv_nth)
      then show "glslang_compile_shader ext (source_path p) \<noteq> None"
        using h(1) by simp
    qed
    then show ?thesis
      using Inr st h(2,3,4) by simp
  qed
qed

lemma load_passes_preset_room:
  assumes "preset_of ext path = Some shader"
    and "\<forall>d \<in> set (preset_declarations ext path). declaration_fits k d"
  shows "case load_passes k ext flt (pass shader) [0..<length (pass shader)] ([], chain) of
      Inl e \<Rightarrow> e = ExceededMaximumParameters \<longrightarrow>
        \<not> parameter_table_has_room k (preset_declarations ext path)
    | Inr st \<Rightarrow> parameter_table_has_room k (preset_declarations ext path)"
proof -
  let ?ps = "pass shader"
  have D: "concat (map (\<lambda>i. pass_declarations ext (?ps ! i)) [0..<length ?ps]) = preset_declarations ext path"
    using assms(1) by (simp add: declared_parameters_nth preset_declarations_Some)
  have fits: "\<forall>d \<in> set ([] @ concat (map (\<lambda>i. pass_declarations ext (?ps ! i)) [0..<length ?ps])). declaration_fits k d"
    using assms(2) D by simp
  show ?thesis
    using load_passes_room [OF stored_first_Nil duplicates_match_Nil fits, of flt chain]
    unfolding D parameter_table_has_room_from .
qed

subsection \<open>The example preset\<close>

lemma example_preset_of:
  "preset_of (example_collaborators d valid) path = Some (example_shader valid)"
  by (simp add: preset_of_def example_collaborators_def)

lemma example_declarations:
  "preset_declarations (example_collaborators d valid) path = [example_parameter ''P'' 0, d]"
proof -
  have "preset_declarations (example_collaborators d valid) path =
      declared_parameters (example_collaborators d valid) (pass (example_shader valid))"
    by (simp add: preset_declarations_def example_preset_of)
  also have "\<dots> = [example_parameter ''P'' 0, d]"
    by (simp add: declared_parameters_def pass_declarations_def example_shader_def example_pass_def
        example_collaborators_def example_output_def)
  finally show ?thesis .
qed

lemma example_fits:
  "declaration_fits (example_constants n) (example_parameter ''P'' m)"
  "declaration_fits (example_constants n) (example_parameter ''Q'' m)"
  by (simp_all add: declaration_fits_def example_constants_def example_parameter_def)

lemma example_same_declaration:
  "same_declaration (example_parameter ''P'' 0) (example_parameter ''P'' 0)"
  by (simp add: same_declaration_def float_ne_def example_parameter_def)

lemma example_duplicates_match:
  "duplicates_match
     (preset_declarations (example_collaborators (example_parameter ''P'' 0) valid) path)"
proof -
  have "[0..<length [example_parameter ''P'' 0, example_parameter ''P'' 0]] = [0, 1]"
    by (simp add: upt_conv_Cons)
  then show ?thesis
    by (simp add: example_declarations duplicates_match_def first_declaration_def
        example_same_declaration)
qed

lemma example_table_prefixes:
  "parameter_table_has_room k [d, d'] \<longleftrightarrow>
     0 < GFX_MAX_PARAMETERS k \<and> 1 < GFX_MAX_PARAMETERS k"
proof -
  have "[0..<length [d, d']] = [0, 1]"
    by (simp add: upt_conv_Cons)
  then show ?thesis
    by (simp add: parameter_table_has_room_def)
qed

subsection \<open>Duplicate declarations, broken presets and the parameter limit\<close>

text \<open>
  Claim C2, as the code has it.  Take a preset that opens, parses to at least one pass,
  loads its LUTs and compiles, whose declarations fit the parameter arrays, with the
  later stages succeeding.  The loader hands out a chain exactly when every declaration
  that repeats an id agrees in description, initial, minimum, maximum and step with the
  first declaration of that id, and the parameter table is not full when a declaration,
  new or repeated, is reached; otherwise it returns null.
\<close>

theorem duplicate_parameters_accepted_iff_match:
  assumes conf: "config_file_new ext path"
    and preset: "preset_of ext path = Some shader"
    and passes: "pass shader \<noteq> []"
    and luts: "\<forall>l \<in> set (lut shader). image_texture_load ext (lut_path l) \<noteq> None"
    and compile: "\<forall>p \<in> set (pass shader). glslang_compile_shader ext (source_path p) \<noteq> None"
    and resolve: "\<forall>sh. video_shader_resolve_current_parameters ext path sh \<noteq> None"
    and init: "\<forall>c. chain_init ext c"
    and fits: "\<forall>d \<in> set (preset_declarations ext path). declaration_fits k d"
  shows "if duplicates_match (preset_declarations ext path) \<and>
            parameter_table_has_room k (preset_declarations ext path)
         then \<exists>c. gl_core_filter_chain_create_from_preset k ext path flt = Inr c
         else returns_null (gl_core_filter_chain_create_from_preset k ext path flt)"
proof -
  obtain chain1 where l: "gl_core_filter_chain_load_luts ext new_gl_core_filter_chain (lut shader) = Some chain1"
    using luts load_luts_None_iff [of ext new_gl_core_filter_chain "lut shader"] by auto
  note unf = create_from_preset_unfold [OF conf preset passes l, of k flt]
  note scan = load_passes_preset [OF preset fits, of flt chain1]
  note room = load_passes_preset_room [OF preset fits, of flt chain1]
  show ?thesis
  proof (cases "load_passes k ext flt (pass shader) [0..<length (pass shader)] ([], chain1)")
    case (Inl e)
    then have "(e = DuplicateParameterMismatch \<and> \<not> duplicates_match (preset_declarations ext path)) \<or>
        (e = ExceededMaximumParameters \<and> \<not> parameter_table_has_room k (preset_declarations ext path))"
      using scan room compile by auto
    then show ?thesis
      using unf Inl by (auto simp: returns_null_def)
  next
    case (Inr st)
    obtain params chain2 where st: "st = (params, chain2)"
      by (cases st)
    have dm: "duplicates_match (preset_declarations ext path)"
      using scan Inr st by simp
    have tr: "parameter_table_has_room k (preset_declarations ext path)"
      using room Inr by simp
    obtain shader' where r: "video_shader_resolve_current_parameters ext path (shader\<lparr>parameters := params\<rparr>) = Some shader'"
      using resolve by (meson option.exhaust)
    show ?thesis
      using unf Inr st dm tr r init by (simp add: Let_def)
  qed
qed

theorem duplicate_parameters_accepted_iff_match_witness:
  "duplicates_match (preset_declarations (example_collaborators (example_parameter ''P'' 0) False) ''x'') \<and>
   parameter_table_has_room (example_constants 128)
     (preset_declarations (example_collaborators (example_parameter ''P'' 0) False) ''x'') \<and>
   (\<exists>c. gl_core_filter_chain_create_from_preset (example_constants 128)
          (example_collaborators (example_parameter ''P'' 0) False) ''x''
          GL_CORE_FILTER_CHAIN_LINEAR = Inr c)"
proof -
  let ?E = "example_collaborators (example_parameter ''P'' 0) False"
  have dm: "duplicates_match (preset_declarations ?E ''x'')"
    by (rule example_duplicates_match)
  have tr: "parameter_table_has_room (example_constants 128) (preset_declarations ?E ''x'')"
    by (simp add: example_declarations example_table_prefixes example_constants_def)
  have "if duplicates_match (preset_declarations ?E ''x'') \<and>
           parameter_table_has_room (example_constants 128) (preset_declarations ?E ''x'')
        then \<exists>c. gl_core_filter_chain_create_from_preset (example_constants 128) ?E ''x''
                GL_CORE_FILTER_CHAIN_LINEAR = Inr c
        else returns_null (gl_core_filter_chain_create_from_preset (example_constants 128) ?E ''x''
                GL_CORE_FILTER_CHAIN_LINEAR)"
  proof (rule duplicate_parameters_accepted_iff_match [where shader = "example_shader False"])
    show "config_file_new ?E ''x''"
      by (simp add: example_collaborators_def)
    show "preset_of ?E ''x'' = Some (example_shader False)"
      by (rule example_preset_of)
    show "pass (example_shader False) \<noteq> []"
      by (simp add: example_shader_def)
    show "\<forall>l \<in> set (lut (example_shader False)). image_texture_load ?E (lut_path l) \<noteq> None"
      by (simp add: example_shader_def)
    show "\<forall>p \<in> set (pass (example_shader False)). glslang_compile_shader ?E (source_path p) \<noteq> None"
      by (simp add: example_shader_def example_collaborators_def)
    show "\<forall>sh. video_shader_resolve_current_parameters ?E ''x'' sh \<noteq> None"
      by (simp add: example_collaborators_def)
    show "\<forall>c. chain_init ?E c"
      by (simp add: example_collaborators_def)
    show "\<forall>d \<in> set (preset_declarations ?E ''x''). declaration_fits (example_constants 128) d"
      by (simp add: example_declarations example_fits)
  qed
  with dm tr show ?thesis
    by simp
qed

text \<open>
  Claim C2, as stated, lets a preset pass whenever the repeated declaration matches the
  first in all five fields.  The limit is tested before the stored parameters are
  searched: with room for one parameter, pass \<open>a\<close> stores \<open>P\<close>, and the identical
  declaration of \<open>P\<close> in pass \<open>b\<close> is refused because the table is full.
\<close>

theorem duplicate_parameters_full_table_counterexample:
  "duplicates_match
     (preset_declarations (example_collaborators (example_parameter ''P'' 0) False) ''x'') \<and>
   gl_core_filter_chain_create_from_preset (example_constants 1)
     (example_collaborators (example_parameter ''P'' 0) False) ''x'' GL_CORE_FILTER_CHAIN_LINEAR
     = Inl ExceededMaximumParameters"
proof -
  let ?E = "example_collaborators (example_parameter ''P'' 0) False"
  have conf: "config_file_new ?E ''x''"
    by (simp add: example_collaborators_def)
  have ne: "pass (example_shader False) \<noteq> []"
    by (simp add: example_shader_def)
  have l: "gl_core_filter_chain_load_luts ?E new_gl_core_filter_chain (lut (example_shader False))
      = Some new_gl_core_filter_chain"
    by (simp add: example_shader_def)
  have len: "[0..<length (pass (example_shader False))] = [0, 1]"
    by (simp add: example_shader_def upt_conv_Cons)
  have c: "glslang_compile_shader ?E p = Some (example_output (example_parameter ''P'' 0))" for p
    by (simp add: example_collaborators_def)
  have mp: "meta_parameters (example_output d) = [d]" for d
    by (simp add: example_output_def)
  have cap: "GFX_MAX_PARAMETERS (example_constants n) = n" for n
    by (simp add: example_constants_def)
  have "load_passes (example_constants 1) ?E GL_CORE_FILTER_CHAIN_LINEAR
      (pass (example_shader False)) [0..<length (pass (example_shader False))]
      ([], new_gl_core_filter_chain) = Inl ExceededMaximumParameters"
    unfolding len by (simp add: load_pass_def c mp Let_def cap)
  then have "gl_core_filter_chain_create_from_preset (example_constants 1) ?E ''x''
      GL_CORE_FILTER_CHAIN_LINEAR = Inl ExceededMaximumParameters"
    using create_from_preset_unfold [OF conf example_preset_of ne l, of "example_constants 1"
        GL_CORE_FILTER_CHAIN_LINEAR]
    by simp
  then show ?thesis
    using example_duplicates_match by simp
qed

lemma create_from_preset_Inr:
  assumes "gl_core_filter_chain_create_from_preset k ext path flt = Inr c"
  shows "config_file_new ext path \<and>
    (\<exists>shader chain1 params chain2 shader'.
        preset_of ext path = Some shader \<and> pass shader \<noteq> [] \<and>
        gl_core_filter_chain_load_luts ext new_gl_core_filter_chain (lut shader) = Some chain1 \<and>
        load_passes k ext flt (pass shader) [0..<length (pass shader)] ([], chain1) = Inr (params, chain2) \<and>
        video_shader_resolve_current_parameters ext path (shader\<lparr>parameters := params\<rparr>) = Some shader' \<and>
        c = set_shader_preset
              (if fbo_valid (fbo (pass shader ! (length (pass shader) - 1)))
               then append_viewport_pass k flt (length (pass shader)) chain2 else chain2) shader' \<and>
        chain_init ext c)"
proof -
  have conf: "config_file_new ext path"
    using assms by (auto simp: gl_core_filter_chain_create_from_preset_def split: if_splits)
  obtain shader0 where rc: "video_shader_read_conf_cgp ext path = Some shader0"
    using assms conf by (auto simp: gl_core_filter_chain_create_from_preset_def split: option.splits)
  define shader where "shader = video_shader_resolve_relative ext shader0 path"
  have preset: "preset_of ext path = Some shader"
    by (simp add: preset_of_def rc shader_def)
  have passes: "pass shader \<noteq> []"
    using assms conf rc by (auto simp: gl_core_filter_chain_create_from_preset_def shader_def Let_def split: if_splits)
  obtain chain1 where l: "gl_core_filter_chain_load_luts ext new_gl_core_filter_chain (lut shader) = Some chain1"
  proof (cases "gl_core_filter_chain_load_luts ext new_gl_core_filter_chain (lut shader)")
    case None
    then have "lut shader \<noteq> []" by auto
    then have False
      using assms conf rc passes None
      by (simp add: gl_core_filter_chain_create_from_preset_def shader_def [symmetric] Let_def)
    then show ?thesis ..
  next
    case (Some ch)
    then show ?thesis using that by simp
  qed
  note unf = create_from_preset_unfold [OF conf preset passes l, of k flt]
  show ?thesis
  proof (cases "load_passes k ext flt (pass shader) [0..<length (pass shader)] ([], chain1)")
    case (Inl e)
    then show ?thesis using unf assms by simp
  next
    case (Inr st)
    obtain params chain2 where st: "st = (params, chain2)"
      by (cases st)
    show ?thesis
      using unf assms Inr st conf preset passes l
      by (auto simp: Let_def split: option.splits if_splits)
  qed
qed


lemma create_from_preset_index_error:
  assumes "gl_core_filter_chain_create_from_preset k ext path flt = Inl PassIndexOutOfRange"
    and "\<forall>d \<in> set (preset_declarations ext path). declaration_fits k d"
  shows "\<exists>shader. preset_of ext path = Some shader \<and> pass shader = []"
proof (rule ccontr)
  assume neg: "\<not> (\<exists>shader. preset_of ext path = Some shader \<and> pass shader = [])"
  have conf: "config_file_new ext path"
    using assms(1) by (auto simp: gl_core_filter_chain_create_from_preset_def split: if_splits)
  obtain shader0 where rc: "video_shader_read_conf_cgp ext path = Some shader0"
    using assms(1) conf by (auto simp: gl_core_filter_chain_create_from_preset_def split: option.splits)
  define shader where "shader = video_shader_resolve_relative ext shader0 path"
  have preset: "preset_of ext path = Some shader"
    by (simp add: preset_of_def rc shader_def)
  then have passes: "pass shader \<noteq> []"
    using neg by auto
  show False
  proof (cases "gl_core_filter_chain_load_luts ext new_gl_core_filter_chain (lut shader)")
    case None
    then have "lut shader \<noteq> []" by auto
    then show False
      using assms(1) conf rc passes None
      by (simp add: gl_core_filter_chain_create_from_preset_def shader_def [symmetric] Let_def)
  next
    case (Some chain1)
    note unf = create_from_preset_unfold [OF conf preset passes Some, of k flt]
    note scan = load_passes_preset [OF preset assms(2), of flt chain1]
    show False
    proof (cases "load_passes k ext flt (pass shader) [0..<length (pass shader)] ([], chain1)")
      case (Inl e)
      then show False
        using unf assms(1) scan by auto
    next
      case (Inr st)
      obtain params chain2 where st: "st = (params, chain2)"
        by (cases st)
      show False
        using unf assms(1) Inr st by (auto simp: Let_def split: option.splits if_splits)
    qed
  qed
qed

lemma create_from_preset_Inr_well_formed:
  assumes "gl_core_filter_chain_create_from_preset k ext path flt = Inr c"
    and "\<forall>d \<in> set (preset_declarations ext path). declaration_fits k d"
  shows "\<not> malformed_preset ext path"
    and "card (mp_id ` set (preset_declarations ext path)) \<le> GFX_MAX_PARAMETERS k"
proof -
  obtain shader chain1 params chain2 where conf: "config_file_new ext path"
    and preset: "preset_of ext path = Some shader"
    and l: "gl_core_filter_chain_load_luts ext new_gl_core_filter_chain (lut shader) = Some chain1"
    and lp: "load_passes k ext flt (pass shader) [0..<length (pass shader)] ([], chain1) = Inr (params, chain2)"
    using create_from_preset_Inr [OF assms(1)] by blast
  have h: "\<forall>p \<in> set (pass shader). glslang_compile_shader ext (source_path p) \<noteq> None"
    "stored_first k (preset_declarations ext path) params"
    "duplicates_match (preset_declarations ext path)"
    "length params \<le> GFX_MAX_PARAMETERS k"
    using load_passes_preset [OF preset assms(2), of flt chain1] lp by simp_all
  have luts: "\<forall>l \<in> set (lut shader). image_texture_load ext (lut_path l) \<noteq> None"
    using l load_luts_None_iff [of ext new_gl_core_filter_chain "lut shader"] by auto
  show "\<not> malformed_preset ext path"
    using conf preset h(1,3) luts by (auto simp: malformed_preset_def)
  show "card (mp_id ` set (preset_declarations ext path)) \<le> GFX_MAX_PARAMETERS k"
    using stored_first_length [OF h(2)] h(4) by simp
qed

text \<open>
  Claim C6.  For a malformed preset, in particular one where a declaration repeats an id
  with another minimum, the loader returns null and hands no chain to its caller.
\<close>

theorem malformed_preset_returns_null:
  assumes fits: "\<forall>d \<in> set (preset_declarations ext path). declaration_fits k d"
    and nonempty: "\<forall>shader. preset_of ext path = Some shader \<longrightarrow> pass shader \<noteq> []"
    and bad: "malformed_preset ext path \<or>
       (\<exists>d \<in> set (preset_declarations ext path). \<exists>d0.
          first_declaration (mp_id d) (preset_declarations ext path) = Some d0 \<and>
          mp_minimum d \<noteq> mp_minimum d0)"
  shows "returns_null (gl_core_filter_chain_create_from_preset k ext path flt) \<and>
         returned_chain (gl_core_filter_chain_create_from_preset k ext path flt) = None"
proof -
  have mal: "malformed_preset ext path"
    using bad
  proof
    assume "malformed_preset ext path"
    then show ?thesis .
  next
    assume "\<exists>d \<in> set (preset_declarations ext path). \<exists>d0.
          first_declaration (mp_id d) (preset_declarations ext path) = Some d0 \<and>
          mp_minimum d \<noteq> mp_minimum d0"
    then obtain d d0 where d: "d \<in> set (preset_declarations ext path)"
      and d0: "first_declaration (mp_id d) (preset_declarations ext path) = Some d0"
      and m: "mp_minimum d \<noteq> mp_minimum d0"
      by blast
    have "d \<noteq> d0" and "\<not> same_declaration d d0"
      using m by (auto simp: same_declaration_def float_ne_def)
    then have "\<not> duplicates_match (preset_declarations ext path)"
      using duplicates_conflict [OF d d0] by blast
    then show ?thesis
      by (simp add: malformed_preset_def)
  qed
  show ?thesis
  proof (cases "gl_core_filter_chain_create_from_preset k ext path flt")
    case (Inr c)
    then show ?thesis
      using create_from_preset_Inr_well_formed(1) [OF Inr fits] mal by simp
  next
    case (Inl e)
    have "e \<noteq> PassIndexOutOfRange"
      using create_from_preset_index_error [OF _ fits, of flt] Inl nonempty by auto
    then show ?thesis
      using Inl by (simp add: returns_null_def returned_chain_def)
  qed
qed

theorem malformed_preset_returns_null_witness:
  "(\<exists>d \<in> set (preset_declarations (example_collaborators (example_parameter ''P'' 1) False) ''x'').
      \<exists>d0. first_declaration (mp_id d)
              (preset_declarations (example_collaborators (example_parameter ''P'' 1) False) ''x'') = Some d0 \<and>
            mp_minimum d \<noteq> mp_minimum d0) \<and>
   returns_null (gl_core_filter_chain_create_from_preset (example_constants 128)
      (example_collaborators (example_parameter ''P'' 1) False) ''x'' GL_CORE_FILTER_CHAIN_LINEAR) \<and>
   returned_chain (gl_core_filter_chain_create_from_preset (example_constants 128)
      (example_collaborators (example_parameter ''P'' 1) False) ''x'' GL_CORE_FILTER_CHAIN_LINEAR) = None"
proof -
  let ?E = "example_collaborators (example_parameter ''P'' 1) False"
  have fits: "\<forall>d \<in> set (preset_declarations ?E ''x''). declaration_fits (example_constants 128) d"
    by (simp add: example_declarations example_fits)
  have nonempty: "\<forall>shader. preset_of ?E ''x'' = Some shader \<longrightarrow> pass shader \<noteq> []"
    by (simp add: example_preset_of example_shader_def)
  have mismatch: "\<exists>d \<in> set (preset_declarations ?E ''x'').
      \<exists>d0. first_declaration (mp_id d) (preset_declarations ?E ''x'') = Some d0 \<and>
            mp_minimum d \<noteq> mp_minimum d0"
    by (simp add: example_declarations first_declaration_def example_parameter_def)
  then have bad: "malformed_preset ?E ''x'' \<or>
      (\<exists>d \<in> set (preset_declarations ?E ''x'').
      \<exists>d0. first_declaration (mp_id d) (preset_declarations ?E ''x'') = Some d0 \<and>
            mp_minimum d \<noteq> mp_minimum d0)"
    by (rule disjI2)
  show ?thesis
    using malformed_preset_returns_null [OF fits nonempty bad, of GL_CORE_FILTER_CHAIN_LINEAR] mismatch
    by simp
qed

text \<open>
  Claim C10.  When the declarations of a preset have more distinct ids than
  \<open>GFX_MAX_PARAMETERS\<close>, the loader returns null.
\<close>

theorem too_many_parameters_returns_null:
  assumes fits: "\<forall>d \<in> set (preset_declarations ext path). declaration_fits k d"
    and over: "GFX_MAX_PARAMETERS k < card (mp_id ` set (preset_declarations ext path))"
  shows "returns_null (gl_core_filter_chain_create_from_preset k ext path flt)"
proof (cases "gl_core_filter_chain_create_from_preset k ext path flt")
  case (Inr c)
  then show ?thesis
    using create_from_preset_Inr_well_formed(2) [OF Inr fits] over by simp
next
  case (Inl e)
  have "e \<noteq> PassIndexOutOfRange"
  proof
    assume "e = PassIndexOutOfRange"
    then obtain shader where "preset_of ext path = Some shader" "pass shader = []"
      using create_from_preset_index_error [OF _ fits, of flt] Inl by auto
    then have "preset_declarations ext path = []"
      by (simp add: preset_declarations_def declared_parameters_def)
    then show False
      using over by simp
  qed
  then show ?thesis
    using Inl by (simp add: returns_null_def)
qed

theorem too_many_parameters_returns_null_witness:
  "GFX_MAX_PARAMETERS (example_constants 1)
     < card (mp_id ` set (preset_declarations (example_collaborators (example_parameter ''Q'' 0) False) ''x'')) \<and>
   returns_null (gl_core_filter_chain_create_from_preset (example_constants 1)
      (example_collaborators (example_parameter ''Q'' 0) False) ''x'' GL_CORE_FILTER_CHAIN_LINEAR)"
proof -
  let ?E = "example_collaborators (example_parameter ''Q'' 0) False"
  have fits: "\<forall>d \<in> set (preset_declarations ?E ''x''). declaration_fits (example_constants 1) d"
    by (simp add: example_declarations example_fits)
  have over: "GFX_MAX_PARAMETERS (example_constants 1) < card (mp_id ` set (preset_declarations ?E ''x''))"
    by (simp add: example_declarations example_constants_def example_parameter_def)
  show ?thesis
    using too_many_parameters_returns_null [OF fits over, of GL_CORE_FILTER_CHAIN_LINEAR] over
    by simp
qed

section \<open>The passes of a loaded chain\<close>

lemma chain_pass_numbers_new: "chain_pass_numbers new_gl_core_filter_chain = {}"
  by (simp add: chain_pass_numbers_def new_gl_core_filter_chain_def)

lemma chain_pass_numbers_set_pass_info:
  "chain_pass_numbers (set_pass_info chain i info) = insert i (chain_pass_numbers chain)"
  by (auto simp: chain_pass_numbers_def set_pass_info_def)

lemma chain_pass_numbers_set_shader:
  "chain_pass_numbers (set_shader chain i stage spirv) = insert i (chain_pass_numbers chain)"
  by (auto simp: chain_pass_numbers_def set_shader_def)

lemma chain_pass_numbers_set_frame_count_period:
  "chain_pass_numbers (set_frame_count_period chain i period) = insert i (chain_pass_numbers chain)"
  by (auto simp: chain_pass_numbers_def set_frame_count_period_def)

lemma chain_pass_numbers_set_pass_name:
  "chain_pass_numbers (set_pass_name chain i name) = insert i (chain_pass_numbers chain)"
  by (auto simp: chain_pass_numbers_def set_pass_name_def)

lemma chain_pass_numbers_add_parameter:
  "chain_pass_numbers (add_parameter chain i j ident) = chain_pass_numbers chain"
  by (simp add: chain_pass_numbers_def add_parameter_def)

lemma chain_pass_numbers_add_static_texture:
  "chain_pass_numbers (add_static_texture chain texture) = chain_pass_numbers chain"
  by (simp add: chain_pass_numbers_def add_static_texture_def)

lemma chain_pass_numbers_set_shader_preset:
  "chain_pass_numbers (set_shader_preset chain shader) = chain_pass_numbers chain"
  by (simp add: chain_pass_numbers_def set_shader_preset_def)

lemmas chain_pass_numbers_simps =
  chain_pass_numbers_set_pass_info chain_pass_numbers_set_shader
  chain_pass_numbers_set_frame_count_period chain_pass_numbers_set_pass_name
  chain_pass_numbers_add_parameter chain_pass_numbers_add_static_texture
  chain_pass_numbers_set_shader_preset

lemma load_luts_pass_numbers:
  "gl_core_filter_chain_load_luts ext chain ls = Some chain' \<Longrightarrow>
     chain_pass_numbers chain' = chain_pass_numbers chain"
proof (induction ls arbitrary: chain)
  case Nil
  then show ?case by simp
next
  case (Cons l ls)
  then show ?case
    by (auto simp: chain_pass_numbers_add_static_texture split: option.splits)
qed

lemma add_parameters_pass_numbers:
  "add_parameters k i ds (params, chain) = Inr (params', chain') \<Longrightarrow>
     chain_pass_numbers chain' = chain_pass_numbers chain"
proof (induction ds arbitrary: params chain)
  case Nil
  then show ?case by simp
next
  case (Cons d ds)
  then show ?case
    by (auto simp: chain_pass_numbers_add_parameter split: if_splits option.splits)
qed

lemma load_pass_pass_numbers:
  assumes "load_pass k ext flt ps i (params, chain) = Inr (params', chain')"
  shows "chain_pass_numbers chain' = insert i (chain_pass_numbers chain)"
proof -
  obtain out where c: "glslang_compile_shader ext (source_path (ps ! i)) = Some out"
    using assms by (auto simp: load_pass_def Let_def split: option.splits)
  obtain params1 chain1 where a: "add_parameters k i (meta_parameters out) (params, chain) = Inr (params1, chain1)"
    using assms c by (auto simp: load_pass_def Let_def split: sum.splits)
  have "chain_pass_numbers chain1 = chain_pass_numbers chain"
    using a by (rule add_parameters_pass_numbers)
  moreover have "chain_pass_numbers chain' = insert i (chain_pass_numbers chain1)"
    using assms c a
    by (auto simp: load_pass_def Let_def chain_pass_numbers_simps if_distrib [of chain_pass_numbers]
        split: if_splits)
  ultimately show ?thesis by simp
qed

lemma load_passes_pass_numbers:
  "load_passes k ext flt ps js (params, chain) = Inr (params', chain') \<Longrightarrow>
     chain_pass_numbers chain' = chain_pass_numbers chain \<union> set js"
proof (induction js arbitrary: params chain)
  case Nil
  then show ?case by simp
next
  case (Cons j js)
  from Cons.prems obtain params1 chain1 where
    h: "load_pass k ext flt ps j (params, chain) = Inr (params1, chain1)"
    and t: "load_passes k ext flt ps js (params1, chain1) = Inr (params', chain')"
    by (auto split: sum.splits)
  show ?case
    using Cons.IH [OF t] load_pass_pass_numbers [OF h] by auto
qed

lemma append_viewport_pass_numbers:
  "chain_pass_numbers (append_viewport_pass k flt n chain) = insert n (chain_pass_numbers chain)"
  by (simp add: append_viewport_pass_def Let_def chain_pass_numbers_simps)

lemma append_viewport_pass_lookup:
  "chain_pass_info (append_viewport_pass k flt n chain) n = Some (viewport_pass_info flt)"
  "chain_shader (append_viewport_pass k flt n chain) (n, GL_VERTEX_SHADER) = Some (opaque_vert k)"
  "chain_shader (append_viewport_pass k flt n chain) (n, GL_FRAGMENT_SHADER) = Some (opaque_frag k)"
  by (simp_all add: append_viewport_pass_def Let_def set_pass_info_def set_shader_def)

lemma set_shader_preset_lookup:
  "chain_pass_info (set_shader_preset chain shader) = chain_pass_info chain"
  "chain_shader (set_shader_preset chain shader) = chain_shader chain"
  by (simp_all add: set_shader_preset_def)

text \<open>
  Claim C3.  When the loader succeeds on a preset of \<open>n\<close> passes, the chain has the pass
  numbers \<open>0, \<dots>, n - 1\<close> if the last pass does not render to a framebuffer, and one
  more, number \<open>n\<close>, if it does; that extra pass is scaled to the viewport by 1 in both
  axes and runs the built-in pass-through vertex and fragment shaders.
\<close>

theorem preset_chain_pass_count:
  assumes "gl_core_filter_chain_create_from_preset k ext path flt = Inr c"
    and "preset_of ext path = Some shader"
  shows "if fbo_valid (fbo (last (pass shader)))
     then chain_pass_numbers c = {0..<length (pass shader) + 1} \<and>
          card (chain_pass_numbers c) = length (pass shader) + 1 \<and>
          (\<exists>info. chain_pass_info c (length (pass shader)) = Some info \<and>
             scale_type_x info = GL_CORE_FILTER_CHAIN_SCALE_VIEWPORT \<and>
             scale_type_y info = GL_CORE_FILTER_CHAIN_SCALE_VIEWPORT \<and>
             scale_x info = 1 \<and> scale_y info = 1) \<and>
          chain_shader c (length (pass shader), GL_VERTEX_SHADER) = Some (opaque_vert k) \<and>
          chain_shader c (length (pass shader), GL_FRAGMENT_SHADER) = Some (opaque_frag k)
     else chain_pass_numbers c = {0..<length (pass shader)} \<and>
          card (chain_pass_numbers c) = length (pass shader)"
proof -
  let ?n = "length (pass shader)"
  obtain chain1 params chain2 shader' where ne: "pass shader \<noteq> []"
    and l: "gl_core_filter_chain_load_luts ext new_gl_core_filter_chain (lut shader) = Some chain1"
    and lp: "load_passes k ext flt (pass shader) [0..<?n] ([], chain1) = Inr (params, chain2)"
    and c: "c = set_shader_preset
              (if fbo_valid (fbo (pass shader ! (?n - 1)))
               then append_viewport_pass k flt ?n chain2 else chain2) shader'"
    using create_from_preset_Inr [OF assms(1)] assms(2) by auto
  have last: "last (pass shader) = pass shader ! (?n - 1)"
    using ne by (rule last_conv_nth)
  have "chain_pass_numbers chain1 = {}"
    using load_luts_pass_numbers [OF l] by (simp add: chain_pass_numbers_new)
  then have n2: "chain_pass_numbers chain2 = {0..<?n}"
    using load_passes_pass_numbers [OF lp] by simp
  show ?thesis
  proof (cases "fbo_valid (fbo (last (pass shader)))")
    case True
    then have c': "c = set_shader_preset (append_viewport_pass k flt ?n chain2) shader'"
      using c last by simp
    have "chain_pass_numbers c = insert ?n {0..<?n}"
      by (simp add: c' chain_pass_numbers_set_shader_preset append_viewport_pass_numbers n2)
    also have "\<dots> = {0..<?n + 1}"
      by auto
    finally have nums: "chain_pass_numbers c = {0..<?n + 1}" .
    have info: "chain_pass_info c ?n = Some (viewport_pass_info flt)"
      by (simp add: c' set_shader_preset_lookup append_viewport_pass_lookup)
    have sh: "chain_shader c (?n, GL_VERTEX_SHADER) = Some (opaque_vert k)"
      "chain_shader c (?n, GL_FRAGMENT_SHADER) = Some (opaque_frag k)"
      by (simp_all add: c' set_shader_preset_lookup append_viewport_pass_lookup)
    have "scale_type_x (viewport_pass_info flt) = GL_CORE_FILTER_CHAIN_SCALE_VIEWPORT \<and>
        scale_type_y (viewport_pass_info flt) = GL_CORE_FILTER_CHAIN_SCALE_VIEWPORT \<and>
        scale_x (viewport_pass_info flt) = 1 \<and> scale_y (viewport_pass_info flt) = 1"
      by (simp add: viewport_pass_info_def)
    then show ?thesis
      using True nums info sh by simp
  next
    case False
    then have c': "c = set_shader_preset chain2 shader'"
      using c last by simp
    have "chain_pass_numbers c = {0..<?n}"
      by (simp add: c' chain_pass_numbers_set_shader_preset n2)
    then show ?thesis
      using False by simp
  qed
qed


lemma example_load_passes:
  "\<exists>st. load_passes (example_constants 128) (example_collaborators (example_parameter ''P'' 0) valid) flt
      (pass (example_shader valid)) [0..<length (pass (example_shader valid))]
      ([], new_gl_core_filter_chain) = Inr st"
proof -
  have len: "[0..<length (pass (example_shader valid))] = [0, 1]"
    by (simp add: example_shader_def upt_rec)
  have id: "mp_id (example_parameter ''P'' 0) = ''P''"
    by (simp add: example_parameter_def)
  have sid: "sp_id (store_parameter (example_constants 128) (example_parameter ''P'' 0)) = ''P''"
    by (simp add: store_parameter_def example_parameter_def example_constants_def strlcpy_def)
  have same: "\<not> parameter_differs (example_parameter ''P'' 0)
      (store_parameter (example_constants 128) (example_parameter ''P'' 0))"
    using parameter_differs_store [OF example_fits(1), of "example_parameter ''P'' 0" 128 0]
    by (simp add: example_same_declaration)
  have cap: "GFX_MAX_PARAMETERS (example_constants 128) = 128"
    by (simp add: example_constants_def)
  have c: "glslang_compile_shader (example_collaborators (example_parameter ''P'' 0) valid) p =
      Some (example_output (example_parameter ''P'' 0))" for p
    by (simp add: example_collaborators_def)
  have mp: "meta_parameters (example_output d) = [d]" for d
    by (simp add: example_output_def)
  show ?thesis
    unfolding len
    by (simp add: load_pass_def c mp Let_def id sid same cap)
qed

lemma example_loads:
  "\<exists>c. gl_core_filter_chain_create_from_preset (example_constants 128)
      (example_collaborators (example_parameter ''P'' 0) valid) ''x'' flt = Inr c"
proof -
  let ?E = "example_collaborators (example_parameter ''P'' 0) valid"
  have conf: "config_file_new ?E ''x''"
    by (simp add: example_collaborators_def)
  have ne: "pass (example_shader valid) \<noteq> []"
    by (simp add: example_shader_def)
  have l: "gl_core_filter_chain_load_luts ?E new_gl_core_filter_chain (lut (example_shader valid))
      = Some new_gl_core_filter_chain"
    by (simp add: example_shader_def)
  obtain st where st: "load_passes (example_constants 128) ?E flt
      (pass (example_shader valid)) [0..<length (pass (example_shader valid))]
      ([], new_gl_core_filter_chain) = Inr st"
    using example_load_passes by blast
  obtain params chain2 where "st = (params, chain2)"
    by (cases st)
  then show ?thesis
    using create_from_preset_unfold [OF conf example_preset_of ne l, of "example_constants 128" flt] st
    by (simp add: Let_def example_collaborators_def)
qed

theorem preset_chain_pass_count_witness:
  "\<exists>c. gl_core_filter_chain_create_from_preset (example_constants 128)
          (example_collaborators (example_parameter ''P'' 0) True) ''x''
          GL_CORE_FILTER_CHAIN_LINEAR = Inr c \<and>
        preset_of (example_collaborators (example_parameter ''P'' 0) True) ''x''
          = Some (example_shader True) \<and>
        fbo_valid (fbo (last (pass (example_shader True)))) \<and>
        length (pass (example_shader True)) = 2 \<and>
        chain_pass_numbers c = {0..<3} \<and> card (chain_pass_numbers c) = 3 \<and>
        chain_shader c (2, GL_VERTEX_SHADER) = Some (opaque_vert (example_constants 128)) \<and>
        chain_shader c (2, GL_FRAGMENT_SHADER) = Some (opaque_frag (example_constants 128))"
proof -
  obtain c where c: "gl_core_filter_chain_create_from_preset (example_constants 128)
          (example_collaborators (example_parameter ''P'' 0) True) ''x''
          GL_CORE_FILTER_CHAIN_LINEAR = Inr c"
    using example_loads by blast
  have v: "fbo_valid (fbo (last (pass (example_shader True))))"
    and n: "length (pass (example_shader True)) = 2"
    by (simp_all add: example_shader_def example_pass_def)
  show ?thesis
    using preset_chain_pass_count [OF c example_preset_of] c v n
    by (auto simp: example_preset_of numeral_3_eq_3)
qed

section \<open>Properties of the driver glue\<close>

lemma ring_index_step:
  assumes "i < GL_CORE_NUM_TEXTURES"
  shows "unat ((i + 1) AND (GL_CORE_NUM_TEXTURES - 1)) = (unat i + 1) mod 4"
proof -
  have "(GL_CORE_NUM_TEXTURES - 1 :: u32) = mask 2"
    by (simp add: GL_CORE_NUM_TEXTURES_def mask_eq_exp_minus_1)
  then have "(i + 1) AND (GL_CORE_NUM_TEXTURES - 1) = take_bit 2 (i + 1)"
    by (simp add: take_bit_eq_mask)
  then have "(i + 1) AND (GL_CORE_NUM_TEXTURES - 1) = (i + 1) mod 4"
    by (simp add: take_bit_eq_mod)
  then have "unat ((i + 1) AND (GL_CORE_NUM_TEXTURES - 1)) = unat (i + 1) mod 4"
    by (simp add: unat_mod)
  moreover have "unat i < 4"
    using assms by (simp add: GL_CORE_NUM_TEXTURES_def word_less_nat_alt)
  then have "unat (i + 1) = unat i + 1"
    by (simp add: unat_word_ariths)
  ultimately show ?thesis by simp
qed

lemma ring_index_lt:
  "(i + 1) AND (GL_CORE_NUM_TEXTURES - 1) < GL_CORE_NUM_TEXTURES"
proof -
  have "(i + 1) AND (GL_CORE_NUM_TEXTURES - 1) \<le> GL_CORE_NUM_TEXTURES - 1"
    by (rule word_and_le1)
  then show ?thesis
    by (simp add: GL_CORE_NUM_TEXTURES_def word_le_nat_alt word_less_nat_alt)
qed

lemma gl_core_set_viewport_fields:
  "filter_chain (gl_core_set_viewport ext gl vi w h ff ar) = filter_chain gl"
  "textures (gl_core_set_viewport ext gl vi w h ff ar) = textures gl"
  "textures_index (gl_core_set_viewport ext gl vi w h ff ar) = textures_index gl"
  "video_info_rgb32 (gl_core_set_viewport ext gl vi w h ff ar) = video_info_rgb32 gl"
  by (simp_all add: gl_core_set_viewport_def Let_def)

lemma gl_core_update_cpu_texture_pixels:
  "streamed_pixels (fst (gl_core_update_cpu_texture gl streamed frame w h)) = Some frame"
  by (simp add: gl_core_update_cpu_texture_def Let_def split: prod.splits)

lemma gl_core_frame_success:
  assumes "gl_core_frame ext (Some gl) frame w h vi = Inr (ok, data', calls)"
  shows "\<exists>gl' chain texture rect.
      ok \<and> data' = Some gl' \<and>
      textures_index gl < GL_CORE_NUM_TEXTURES \<and>
      unat (textures_index gl) < length (textures gl) \<and>
      filter_chain gl = Some chain \<and>
      filter_chain gl' = Some (fc_end_frame ext (fc_build_viewport_pass ext
          (fc_build_offscreen_passes ext (fc_set_input_texture ext chain texture) rect) rect)) \<and>
      textures gl' = (textures gl)[unat (textures_index gl) :=
          fst (gl_core_update_cpu_texture gl (textures gl ! unat (textures_index gl)) frame w h)] \<and>
      textures_index gl' = (textures_index gl + 1) AND (GL_CORE_NUM_TEXTURES - 1) \<and>
      calls = [CALL_update_cpu_texture (unat (textures_index gl)) frame,
               CALL_set_viewport,
               CALL_set_input_texture texture,
               CALL_build_offscreen_passes rect,
               CALL_clear_backbuffer,
               CALL_build_viewport_pass rect,
               CALL_end_frame,
               CALL_update_window_title,
               CALL_swap_buffers]"
  using assms
  by (auto simp: gl_core_frame_def Let_def gl_core_set_viewport_fields
      split: if_splits prod.splits option.splits)


text \<open>
  Claim C7.  A frame that returns has called the filter chain four times, once each and
  in this order: \<open>set_input_texture\<close>, \<open>build_offscreen_passes\<close>,
  \<open>build_viewport_pass\<close>, \<open>end_frame\<close>; the chain of the handle is afterwards the
  result of the four applied in turn.
\<close>

theorem frame_filter_chain_call_order:
  assumes "gl_core_frame ext (Some gl) frame w h vi = Inr (ok, data', calls)"
  shows "\<exists>gl' chain texture rect.
      ok \<and> data' = Some gl' \<and> filter_chain gl = Some chain \<and>
      filter is_filter_chain_call calls =
        [CALL_set_input_texture texture, CALL_build_offscreen_passes rect,
         CALL_build_viewport_pass rect, CALL_end_frame] \<and>
      filter_chain gl' = Some (fc_end_frame ext (fc_build_viewport_pass ext
          (fc_build_offscreen_passes ext (fc_set_input_texture ext chain texture) rect) rect))"
proof -
  obtain gl' chain texture rect where
    h: "ok" "data' = Some gl'" "filter_chain gl = Some chain"
      "filter_chain gl' = Some (fc_end_frame ext (fc_build_viewport_pass ext
          (fc_build_offscreen_passes ext (fc_set_input_texture ext chain texture) rect) rect))"
      "calls = [CALL_update_cpu_texture (unat (textures_index gl)) frame,
               CALL_set_viewport,
               CALL_set_input_texture texture,
               CALL_build_offscreen_passes rect,
               CALL_clear_backbuffer,
               CALL_build_viewport_pass rect,
               CALL_end_frame,
               CALL_update_window_title,
               CALL_swap_buffers]"
    using gl_core_frame_success [OF assms] by blast
  have "filter is_filter_chain_call calls =
        [CALL_set_input_texture texture, CALL_build_offscreen_passes rect,
         CALL_build_viewport_pass rect, CALL_end_frame]"
    by (simp add: h(5))
  then show ?thesis
    using h(1-4) by blast
qed

lemma example_frame:
  "gl_core_frame (example_driver stock) (Some example_gl) (5 :: nat) 256 240 example_info =
     Inr (True,
       Some (example_gl\<lparr>textures :=
               (textures example_gl)[0 := \<lparr>streamed_tex = 1, streamed_width = 256,
                  streamed_height = 240, streamed_pixels = Some 5\<rparr>],
             gl_last_name := 1, textures_index := 1\<rparr>),
       [CALL_update_cpu_texture 0 5,
        CALL_set_viewport,
        CALL_set_input_texture \<lparr>texture_image = 1, texture_width = 256, texture_height = 240,
           texture_format = GL_RGBA8\<rparr>,
        CALL_build_offscreen_passes example_rect,
        CALL_clear_backbuffer,
        CALL_build_viewport_pass example_rect,
        CALL_end_frame,
        CALL_update_window_title,
        CALL_swap_buffers])"
  by (simp add: gl_core_frame_def example_gl_def example_driver_def example_info_def
      example_rect_def gl_core_update_cpu_texture_def gl_core_set_viewport_def
      GL_CORE_NUM_TEXTURES_def Let_def)

theorem frame_filter_chain_call_order_witness:
  "gl_core_frame (example_driver (Some 7)) (Some example_gl) (5 :: nat) 256 240 example_info =
     Inr (True,
       Some (example_gl\<lparr>textures :=
               (textures example_gl)[0 := \<lparr>streamed_tex = 1, streamed_width = 256,
                  streamed_height = 240, streamed_pixels = Some 5\<rparr>],
             gl_last_name := 1, textures_index := 1\<rparr>),
       [CALL_update_cpu_texture 0 5,
        CALL_set_viewport,
        CALL_set_input_texture \<lparr>texture_image = 1, texture_width = 256, texture_height = 240,
           texture_format = GL_RGBA8\<rparr>,
        CALL_build_offscreen_passes example_rect,
        CALL_clear_backbuffer,
        CALL_build_viewport_pass example_rect,
        CALL_end_frame,
        CALL_update_window_title,
        CALL_swap_buffers]) \<and>
   (\<exists>texture rect.
      filter is_filter_chain_call
       [CALL_update_cpu_texture 0 (5 :: nat),
        CALL_set_viewport,
        CALL_set_input_texture \<lparr>texture_image = 1, texture_width = 256, texture_height = 240,
           texture_format = GL_RGBA8\<rparr>,
        CALL_build_offscreen_passes example_rect,
        CALL_clear_backbuffer,
        CALL_build_viewport_pass example_rect,
        CALL_end_frame,
        CALL_update_window_title,
        CALL_swap_buffers] =
        [CALL_set_input_texture texture, CALL_build_offscreen_passes rect,
         CALL_build_viewport_pass rect, CALL_end_frame])"
  using frame_filter_chain_call_order [OF example_frame [of "Some 7"]] example_frame [of "Some 7"]
  by blast

lemma gl_core_frames_slots:
  "gl_core_frames ext gl fs = Some (gl', calls) \<Longrightarrow>
     uploaded_slots calls = map (\<lambda>j. (unat (textures_index gl) + j) mod 4) [0..<length fs] \<and>
     (fs \<noteq> [] \<longrightarrow> textures_index gl < GL_CORE_NUM_TEXTURES)"
proof (induction fs arbitrary: gl calls)
  case Nil
  then show ?case by simp
next
  case (Cons f fs)
  obtain frame w h vi where f: "f = (frame, w, h, vi)"
    by (cases f)
  from Cons.prems f obtain gl1 calls1 calls2 where
    fr: "gl_core_frame ext (Some gl) frame w h vi = Inr (True, Some gl1, calls1)"
    and rest: "gl_core_frames ext gl1 fs = Some (gl', calls2)"
    and calls: "calls = calls1 @ calls2"
    by (auto split: sum.splits prod.splits bool.splits option.splits)
  obtain texture rect where
    lt: "textures_index gl < GL_CORE_NUM_TEXTURES"
    and idx: "textures_index gl1 = (textures_index gl + 1) AND (GL_CORE_NUM_TEXTURES - 1)"
    and c1: "calls1 = [CALL_update_cpu_texture (unat (textures_index gl)) frame,
               CALL_set_viewport,
               CALL_set_input_texture texture,
               CALL_build_offscreen_passes rect,
               CALL_clear_backbuffer,
               CALL_build_viewport_pass rect,
               CALL_end_frame,
               CALL_update_window_title,
               CALL_swap_buffers]"
    using gl_core_frame_success [OF fr] by auto
  have small: "unat (textures_index gl) < 4"
    using lt by (simp add: GL_CORE_NUM_TEXTURES_def word_less_nat_alt)
  have next_idx: "unat (textures_index gl1) = (unat (textures_index gl) + 1) mod 4"
    using ring_index_step [OF lt] idx by simp
  have app: "uploaded_slots (calls1 @ calls2) = unat (textures_index gl) # uploaded_slots calls2"
    by (simp add: c1)
  have "uploaded_slots calls2 = map (\<lambda>j. (unat (textures_index gl1) + j) mod 4) [0..<length fs]"
    using Cons.IH [OF rest] by simp
  also have "\<dots> = map (\<lambda>j. (unat (textures_index gl) + Suc j) mod 4) [0..<length fs]"
    by (simp add: next_idx mod_add_left_eq)
  also have "\<dots> = map (\<lambda>j. (unat (textures_index gl) + j) mod 4) (map Suc [0..<length fs])"
    by (simp add: comp_def)
  finally have tl: "uploaded_slots calls2 =
      map (\<lambda>j. (unat (textures_index gl) + j) mod 4) [Suc 0..<Suc (length fs)]"
    by (simp only: map_Suc_upt)
  have "[0..<length (f # fs)] = 0 # [Suc 0..<Suc (length fs)]"
    by (simp add: upt_rec)
  then show ?case
    using app tl small lt calls by simp
qed

text \<open>
  Claim C9.  A successful frame uploads its pixels into the streamed texture the ring
  index selects and then advances the index by one modulo \<open>GL_CORE_NUM_TEXTURES\<close>;
  four frames in a row upload into four different slots.
\<close>

theorem streamed_texture_ring:
  assumes "gl_core_frames ext gl (f # fs) = Some (gl', calls)"
    and "length fs = 3"
  shows "\<exists>gl1 calls1.
      gl_core_frame ext (Some gl) (fst f) (fst (snd f)) (fst (snd (snd f))) (snd (snd (snd f)))
        = Inr (True, Some gl1, calls1) \<and>
      uploaded_slots calls1 = [unat (textures_index gl)] \<and>
      streamed_pixels (textures gl1 ! unat (textures_index gl)) = Some (fst f) \<and>
      unat (textures_index gl1) = (unat (textures_index gl) + 1) mod unat GL_CORE_NUM_TEXTURES \<and>
      length (uploaded_slots calls) = 4 \<and> distinct (uploaded_slots calls)"
proof -
  obtain frame w h vi where f: "f = (frame, w, h, vi)"
    by (cases f)
  from assms(1) f obtain gl1 calls1 calls2 where
    fr: "gl_core_frame ext (Some gl) frame w h vi = Inr (True, Some gl1, calls1)"
    by (auto split: sum.splits prod.splits bool.splits option.splits)
  obtain texture rect where
    lt: "textures_index gl < GL_CORE_NUM_TEXTURES"
    and len: "unat (textures_index gl) < length (textures gl)"
    and tx: "textures gl1 = (textures gl)[unat (textures_index gl) :=
          fst (gl_core_update_cpu_texture gl (textures gl ! unat (textures_index gl)) frame w h)]"
    and idx: "textures_index gl1 = (textures_index gl + 1) AND (GL_CORE_NUM_TEXTURES - 1)"
    and c1: "calls1 = [CALL_update_cpu_texture (unat (textures_index gl)) frame,
               CALL_set_viewport,
               CALL_set_input_texture texture,
               CALL_build_offscreen_passes rect,
               CALL_clear_backbuffer,
               CALL_build_viewport_pass rect,
               CALL_end_frame,
               CALL_update_window_title,
               CALL_swap_buffers]"
    using gl_core_frame_success [OF fr] by auto
  have px: "streamed_pixels (textures gl1 ! unat (textures_index gl)) = Some frame"
    using len by (simp add: tx gl_core_update_cpu_texture_pixels)
  have next_idx: "unat (textures_index gl1) = (unat (textures_index gl) + 1) mod unat GL_CORE_NUM_TEXTURES"
    using ring_index_step [OF lt] idx by (simp add: GL_CORE_NUM_TEXTURES_def)
  have small: "unat (textures_index gl) < 4"
    using lt by (simp add: GL_CORE_NUM_TEXTURES_def word_less_nat_alt)
  have l4: "length (f # fs) = 4"
    using assms(2) by simp
  have u4: "[0..<4 :: nat] = [0, 1, 2, 3]"
    by (simp add: upt_conv_Cons)
  have slots: "uploaded_slots calls =
      map (\<lambda>j. (unat (textures_index gl) + j) mod 4) [0, 1, 2, 3]"
    using gl_core_frames_slots [OF assms(1)] unfolding l4 u4 by simp
  have "unat (textures_index gl) = 0 \<or> unat (textures_index gl) = 1 \<or>
      unat (textures_index gl) = 2 \<or> unat (textures_index gl) = 3"
    using small by arith
  then have "distinct (map (\<lambda>j. (unat (textures_index gl) + j) mod 4) [0, 1, 2, 3])"
    by (elim disjE) simp_all
  then have "length (uploaded_slots calls) = 4 \<and> distinct (uploaded_slots calls)"
    unfolding slots by simp
  then show ?thesis
    using fr px next_idx c1 f by simp
qed


lemma gl_core_frame_runs:
  assumes "textures_index gl < GL_CORE_NUM_TEXTURES"
    and "length (textures gl) = 4"
    and "filter_chain gl = Some chain"
  shows "\<exists>gl' calls chain'. gl_core_frame ext (Some gl) frame w h vi = Inr (True, Some gl', calls) \<and>
      textures_index gl' < GL_CORE_NUM_TEXTURES \<and> length (textures gl') = 4 \<and>
      filter_chain gl' = Some chain'"
proof -
  have "unat (textures_index gl) < length (textures gl)"
    using assms(1,2) by (simp add: GL_CORE_NUM_TEXTURES_def word_less_nat_alt)
  then show ?thesis
    using assms ring_index_lt [of "textures_index gl"]
    by (simp add: gl_core_frame_def Let_def gl_core_set_viewport_fields split: prod.splits)
qed

lemma gl_core_frames_run:
  assumes "textures_index gl < GL_CORE_NUM_TEXTURES"
    and "length (textures gl) = 4"
    and "filter_chain gl = Some chain"
  shows "\<exists>gl' calls. gl_core_frames ext gl fs = Some (gl', calls)"
  using assms
proof (induction fs arbitrary: gl chain)
  case Nil
  then show ?case by simp
next
  case (Cons f fs)
  obtain frame w h vi where f: "f = (frame, w, h, vi)"
    by (cases f)
  obtain gl1 calls1 chain1 where
    fr: "gl_core_frame ext (Some gl) frame w h vi = Inr (True, Some gl1, calls1)"
    and inv: "textures_index gl1 < GL_CORE_NUM_TEXTURES" "length (textures gl1) = 4"
      "filter_chain gl1 = Some chain1"
    using gl_core_frame_runs [OF Cons.prems, of ext frame w h vi] by blast
  obtain gl' calls2 where "gl_core_frames ext gl1 fs = Some (gl', calls2)"
    using Cons.IH [OF inv] by blast
  then show ?case
    using fr f by simp
qed

lemma example_gl_well_formed:
  "textures_index example_gl < GL_CORE_NUM_TEXTURES"
  "length (textures example_gl) = 4"
  "filter_chain example_gl = Some 0"
  "unat (textures_index example_gl) = 0"
  by (simp_all add: example_gl_def GL_CORE_NUM_TEXTURES_def)

theorem streamed_texture_ring_witness:
  "\<exists>gl' calls.
     gl_core_frames (example_driver (Some 7)) example_gl
       [(5, 256, 240, example_info), (6, 256, 240, example_info),
        (7, 256, 240, example_info), (8, 256, 240, example_info)] = Some (gl', calls) \<and>
     length [(6 :: nat, 256 :: u32, 240 :: u32, example_info), (7, 256, 240, example_info),
        (8, 256, 240, example_info)] = 3 \<and>
     length (uploaded_slots calls) = 4 \<and> distinct (uploaded_slots calls)"
proof -
  let ?fs = "[(6 :: nat, 256 :: u32, 240 :: u32, example_info), (7, 256, 240, example_info),
        (8, 256, 240, example_info)]"
  obtain gl' calls where run: "gl_core_frames (example_driver (Some 7)) example_gl
       ((5, 256, 240, example_info) # ?fs) = Some (gl', calls)"
    using gl_core_frames_run [OF example_gl_well_formed(1-3)] by blast
  have len: "length ?fs = 3"
    by simp
  show ?thesis
    using streamed_texture_ring [OF run len] run by auto
qed

text \<open>
  The same fallback at driver start: with a SLANG preset that cannot be loaded,
  \<open>gl_core_init_filter_chain\<close> stores what the stock constructor returns and reports
  success.
\<close>

lemma init_filter_chain_installs_stock_result:
  assumes "retroarch_get_shader_preset ext = Some path"
    and "video_shader_parse_type ext (Some path) = RARCH_SHADER_SLANG"
    and "fc_create_from_preset ext path (filter_of_smooth (video_info_smooth gl)) = None"
    and "ctx_driver gl"
  shows "gl_core_init_filter_chain ext gl =
     (True, gl\<lparr>filter_chain := fc_create_default ext (filter_of_smooth (video_info_smooth gl))\<rparr>)"
  using assms
  by (simp add: gl_core_init_filter_chain_def gl_core_init_filter_chain_preset_def
      gl_core_init_default_filter_chain_def Let_def)

text \<open>
  Claim C5, as the code has it.  When the chain of a preset cannot be created,
  \<open>gl_core_set_shader\<close> on a handle with a context driver calls the stock constructor,
  stores what it returns in the handle and returns false.  The handle holds the stock
  chain whenever the stock constructor returns one.
\<close>

theorem set_shader_installs_stock_result:
  assumes "fc_create_from_preset ext path (filter_of_smooth (video_info_smooth gl)) = None"
    and "ctx_driver gl"
  shows "gl_core_set_shader ext (Some gl) RARCH_SHADER_SLANG (Some path) =
     (False, Some (gl\<lparr>filter_chain :=
                       fc_create_default ext (filter_of_smooth (video_info_smooth gl))\<rparr>))"
  using assms
  by (simp add: gl_core_set_shader_def gl_core_init_filter_chain_preset_def
      gl_core_init_default_filter_chain_def Let_def)

theorem set_shader_installs_stock_result_witness:
  "fc_create_from_preset (example_driver (Some 7)) ''bad.slangp''
      (filter_of_smooth (video_info_smooth example_gl)) = None \<and>
   ctx_driver example_gl \<and>
   gl_core_set_shader (example_driver (Some 7)) (Some example_gl) RARCH_SHADER_SLANG
      (Some ''bad.slangp'') = (False, Some (example_gl\<lparr>filter_chain := Some 7\<rparr>))"
proof -
  have a: "fc_create_from_preset (example_driver (Some 7)) ''bad.slangp''
      (filter_of_smooth (video_info_smooth example_gl)) = None"
    by (simp add: example_driver_def)
  have b: "ctx_driver example_gl"
    by (simp add: example_gl_def)
  have c: "fc_create_default (example_driver (Some 7)) flt = Some 7" for flt
    by (simp add: example_driver_def)
  show ?thesis
    using set_shader_installs_stock_result [OF a b] a b by (simp add: c)
qed

text \<open>
  Claim C5, as stated, lets the handle always end with a chain.  The result of the stock
  constructor is not checked: when it fails as well, the handle is left with a null
  chain, and the next frame calls into it.
\<close>

theorem set_shader_fallback_counterexample:
  "fc_create_from_preset (example_driver None) ''bad.slangp''
      (filter_of_smooth (video_info_smooth example_gl)) = None \<and>
   gl_core_set_shader (example_driver None) (Some example_gl) RARCH_SHADER_SLANG
      (Some ''bad.slangp'') = (False, Some (example_gl\<lparr>filter_chain := None\<rparr>)) \<and>
   gl_core_frame (example_driver None) (Some (example_gl\<lparr>filter_chain := None\<rparr>))
      (5 :: nat) 256 240 example_info = Inl NullFilterChain"
proof -
  have a: "fc_create_from_preset (example_driver None) ''bad.slangp''
      (filter_of_smooth (video_info_smooth example_gl)) = None"
    by (simp add: example_driver_def)
  have b: "gl_core_set_shader (example_driver None) (Some example_gl) RARCH_SHADER_SLANG
      (Some ''bad.slangp'') = (False, Some (example_gl\<lparr>filter_chain := None\<rparr>))"
    by (simp add: gl_core_set_shader_def gl_core_init_filter_chain_preset_def
        gl_core_init_default_filter_chain_def Let_def example_driver_def example_gl_def)
  have c: "gl_core_frame (example_driver None) (Some (example_gl\<lparr>filter_chain := None\<rparr>))
      (5 :: nat) 256 240 example_info = Inl NullFilterChain"
    by (simp add: gl_core_frame_def example_gl_def GL_CORE_NUM_TEXTURES_def Let_def
        gl_core_set_viewport_fields split: prod.splits)
  from a b c show ?thesis
    by simp
qed

section \<open>Properties of the chain at run time\<close>

subsection \<open>History ring\<close>

lemma filter_chain_set_input_texture_records:
  "fcs_input_texture (filter_chain_set_input_texture chain texture) = Some texture"
  "fcs_draws (filter_chain_set_input_texture chain texture) = fcs_draws chain"
  "fcs_original_history (filter_chain_set_input_texture chain texture) = fcs_original_history chain"
  by (simp_all add: filter_chain_set_input_texture_def)

lemma gl_core_frame_presents:
  assumes "gl_core_frame ext (Some gl) frame w h vi = Inr (ok, data', calls)"
    and "fc_set_input_texture ext = filter_chain_set_input_texture"
    and "fc_build_offscreen_passes ext = filter_chain_build_offscreen_passes"
    and "fc_build_viewport_pass ext = filter_chain_build_viewport_pass"
    and "fc_end_frame ext = filter_chain_end_frame"
  shows "\<exists>gl' chain texture rect. data' = Some gl' \<and> filter_chain gl = Some chain \<and>
    filter_chain gl' = Some (present_frame rect chain texture)"
  using gl_core_frame_success [OF assms(1)] assms(2-5)
  by (auto simp: present_frame_def)

lemma present_frame_fields:
  "fcs_original_history (present_frame rect chain texture) =
     take (fcs_history_size chain) (texture # fcs_original_history chain)"
  "fcs_history_size (present_frame rect chain texture) = fcs_history_size chain"
  "fcs_frame_count (present_frame rect chain texture) = fcs_frame_count chain + 1"
  by (simp_all add: present_frame_def filter_chain_end_frame_def
      filter_chain_build_viewport_pass_def filter_chain_build_offscreen_passes_def
      filter_chain_set_input_texture_def)

lemma present_frames_history_size:
  "fcs_history_size (present_frames rect chain frames) = fcs_history_size chain"
  unfolding present_frames_def
  by (induction frames arbitrary: chain) (simp_all add: present_frame_fields)

lemma present_frames_snoc:
  "present_frames rect chain (frames @ [x]) = present_frame rect (present_frames rect chain frames) x"
  by (simp add: present_frames_def)

lemma present_frames_history:
  assumes "length (fcs_original_history chain) \<le> fcs_history_size chain"
  shows "fcs_original_history (present_frames rect chain frames) =
     take (fcs_history_size chain) (rev frames @ fcs_original_history chain)"
proof (induction frames rule: rev_induct)
  case Nil
  show ?case
    using assms by (simp add: present_frames_def)
next
  case (snoc x frames)
  show ?case
    by (simp add: present_frames_snoc present_frame_fields present_frames_history_size snoc
        take_Cons' min_def)
qed

lemma rev_upt_last:
  assumes "K \<le> N"
  shows "take K (rev [0..<N]) = rev [N - K..<N]"
proof -
  have "take K (rev [0..<N]) = rev (drop (N - K) [0..<N])"
    using assms by (simp add: take_rev)
  then show ?thesis
    by simp
qed

text \<open>
  Claim C8.  In a history ring of capacity \<open>K\<close>, after \<open>N \<ge> K\<close> presented frames
  \<open>f 0, \<dots>, f (N - 1)\<close> the ring holds \<open>f (N - 1)\<close> down to \<open>f (N - K)\<close> in this
  order.  The three calls before \<open>end_frame\<close> leave the ring as it is, so it changes once
  per presented frame, after the passes have run; the frame count grows by one per
  frame; after a reset the ring is empty.
\<close>

theorem history_ring_last_frames:
  assumes "fcs_history_size chain = K"
    and "length (fcs_original_history chain) \<le> K"
    and "K \<le> N"
  shows "fcs_original_history (present_frames rect chain (map f [0..<N])) = map f (rev [N - K..<N]) \<and>
    fcs_original_history
      (filter_chain_build_viewport_pass
         (filter_chain_build_offscreen_passes (filter_chain_set_input_texture chain x) rect) rect)
      = fcs_original_history chain \<and>
    fcs_frame_count (present_frames rect chain (map f [0..<N])) = fcs_frame_count chain + N \<and>
    fcs_original_history (filter_chain_reset (present_frames rect chain (map f [0..<N]))) = []"
proof -
  have "fcs_original_history (present_frames rect chain (map f [0..<N])) =
      take K (rev (map f [0..<N]) @ fcs_original_history chain)"
    using present_frames_history [of chain rect "map f [0..<N]"] assms(1,2) by simp
  also have "\<dots> = take K (map f (rev [0..<N]))"
    using assms(3) by (simp add: rev_map)
  also have "\<dots> = map f (take K (rev [0..<N]))"
    by (simp add: take_map)
  also have "\<dots> = map f (rev [N - K..<N])"
    using assms(3) by (simp only: rev_upt_last)
  finally have ring: "fcs_original_history (present_frames rect chain (map f [0..<N])) =
      map f (rev [N - K..<N])" .
  have untouched: "fcs_original_history
      (filter_chain_build_viewport_pass
         (filter_chain_build_offscreen_passes (filter_chain_set_input_texture chain x) rect) rect)
      = fcs_original_history chain"
    by (simp add: filter_chain_build_viewport_pass_def filter_chain_build_offscreen_passes_def
        filter_chain_set_input_texture_def)
  have count: "fcs_frame_count (present_frames rect chain frames) = fcs_frame_count chain + length frames"
    for frames
    by (induction frames rule: rev_induct)
      (simp_all add: present_frames_snoc present_frame_fields, simp add: present_frames_def)
  have reset: "fcs_original_history (filter_chain_reset c) = []" for c :: "'a filter_chain_state"
    by (simp add: filter_chain_reset_def)
  show ?thesis
    using ring untouched count [of "map f [0..<N]"] reset by simp
qed

theorem history_ring_last_frames_witness:
  "fcs_history_size \<lparr>fcs_input_texture = None, fcs_original_history = [] :: nat list,
      fcs_history_size = 2, fcs_passes = 2, fcs_draws = 0, fcs_frame_count = 0\<rparr> = 2 \<and>
   (2 :: nat) \<le> 5 \<and>
   fcs_original_history (present_frames example_rect
      \<lparr>fcs_input_texture = None, fcs_original_history = [] :: nat list,
        fcs_history_size = 2, fcs_passes = 2, fcs_draws = 0, fcs_frame_count = 0\<rparr>
      (map (\<lambda>n. 100 + n) [0..<5])) = [104, 103]"
proof -
  let ?c = "\<lparr>fcs_input_texture = None, fcs_original_history = [] :: nat list,
        fcs_history_size = 2, fcs_passes = 2, fcs_draws = 0, fcs_frame_count = 0\<rparr>"
  have a: "fcs_history_size ?c = 2" by simp
  have b: "length (fcs_original_history ?c) \<le> 2" by simp
  have c: "(2 :: nat) \<le> 5" by simp
  have "[5 - 2..<5 :: nat] = [3, 4]"
    by (simp add: upt_conv_Cons)
  then show ?thesis
    using history_ring_last_frames [OF a b c, of example_rect "\<lambda>n. 100 + n"] by simp
qed

subsection \<open>Output size of a pass\<close>

lemma Framebuffer_set_size_same:
  "fmt = GL_FORMAT_0 \<or> fmt = fb_format fb \<Longrightarrow> fb_size fb = sz \<Longrightarrow> Framebuffer_set_size fb sz fmt = fb"
  by (auto simp: Framebuffer_set_size_def Let_def)

lemma Framebuffer_set_size_result:
  "fb_size (Framebuffer_set_size fb sz fmt) = sz"
  "fmt = GL_FORMAT_0 \<or> fmt = fb_format (Framebuffer_set_size fb sz fmt)"
  by (auto simp: Framebuffer_set_size_def Let_def)

text \<open>
  Claim C1.  For a pass info whose scale type is input-relative in both axes,
  \<open>set_pass_info\<close> returns \<open>round (source * scale)\<close> per axis, and a second call with
  the same sizes and the same pass info returns the same size and leaves the pass as it
  is: the framebuffer is not resized and nothing is allocated.
\<close>

theorem source_scaled_output_size_idempotent:
  assumes "scale_type_x info = GL_CORE_FILTER_CHAIN_SCALE_SOURCE"
    and "scale_type_y info = GL_CORE_FILTER_CHAIN_SCALE_SOURCE"
  shows "fst (Pass_set_pass_info p max_original max_source info) =
      \<lparr>size_width = word_of_int (round (of_nat (unat (size_width max_source)) * scale_x info)),
       size_height = word_of_int (round (of_nat (unat (size_height max_source)) * scale_y info))\<rparr> \<and>
    Pass_set_pass_info (snd (Pass_set_pass_info p max_original max_source info))
        max_original max_source info
      = Pass_set_pass_info p max_original max_source info \<and>
    map_option fb_allocations
      (ps_framebuffer (snd (Pass_set_pass_info
         (snd (Pass_set_pass_info p max_original max_source info)) max_original max_source info)))
      = map_option fb_allocations
          (ps_framebuffer (snd (Pass_set_pass_info p max_original max_source info)))"
proof -
  let ?sz = "\<lparr>size_width = word_of_int (round (of_nat (unat (size_width max_source)) * scale_x info)),
       size_height = word_of_int (round (of_nat (unat (size_height max_source)) * scale_y info))\<rparr>"
  have out: "Pass_get_output_size (q\<lparr>ps_pass_info := info\<rparr>) max_original max_source = ?sz" for q
    using assms by (simp add: Pass_get_output_size_def output_axis_def)
  have first: "fst (Pass_set_pass_info p max_original max_source info) = ?sz"
    by (simp add: Pass_set_pass_info_def Let_def out split: option.splits)
  have idem: "Pass_set_pass_info (snd (Pass_set_pass_info p max_original max_source info))
        max_original max_source info
      = Pass_set_pass_info p max_original max_source info"
  proof (cases "ps_final_pass p")
    case True
    then show ?thesis
      by (simp add: Pass_set_pass_info_def Let_def out)
  next
    case False
    show ?thesis
    proof (cases "ps_framebuffer p")
      case None
      then show ?thesis
        using False
        by (simp add: Pass_set_pass_info_def Let_def out Framebuffer_set_size_def)
    next
      case (Some fb)
      have "Framebuffer_set_size (Framebuffer_set_size fb ?sz (rt_format info)) ?sz (rt_format info)
          = Framebuffer_set_size fb ?sz (rt_format info)"
        by (rule Framebuffer_set_size_same) (simp_all add: Framebuffer_set_size_result)
      then show ?thesis
        using False Some by (simp add: Pass_set_pass_info_def Let_def out)
    qed
  qed
  show ?thesis
    using first idem by simp
qed

theorem source_scaled_output_size_idempotent_witness:
  "scale_type_x example_source_info = GL_CORE_FILTER_CHAIN_SCALE_SOURCE \<and>
   scale_type_y example_source_info = GL_CORE_FILTER_CHAIN_SCALE_SOURCE \<and>
   fst (Pass_set_pass_info example_pass_state \<lparr>size_width = 256, size_height = 240\<rparr>
          \<lparr>size_width = 256, size_height = 240\<rparr> example_source_info)
     = \<lparr>size_width = 512, size_height = 480\<rparr>"
proof -
  have a: "scale_type_x example_source_info = GL_CORE_FILTER_CHAIN_SCALE_SOURCE"
    and b: "scale_type_y example_source_info = GL_CORE_FILTER_CHAIN_SCALE_SOURCE"
    and s: "scale_x example_source_info = 2" "scale_y example_source_info = 2"
    by (simp_all add: example_source_info_def)
  show ?thesis
    using source_scaled_output_size_idempotent [OF a b, of example_pass_state
        "\<lparr>size_width = 256, size_height = 240\<rparr>" "\<lparr>size_width = 256, size_height = 240\<rparr>"] a b
    by (simp add: s)
qed

end
